theory Spec2Isabelle
  imports Complex_Main
begin

section \<open>Numbers and tensors\<close>

text \<open>
  The pipeline computes on float32 tensors. A finite float is modelled by the exact
  rational it denotes, so every statement below is about exact arithmetic; rounding and
  overflow of float32 are outside the model. A float division by zero does not raise in
  the tensor framework: it yields an infinity or a NaN. That result is the value
  \<open>None\<close> of \<open>fl\<close>, and it is absorbed by multiplication and subtraction, as infinities
  and NaNs are.
\<close>

type_synonym fl = "rat option"

definition fdiv :: "rat \<Rightarrow> rat \<Rightarrow> fl" where
  "fdiv a b = (if b = 0 then None else Some (a / b))"

definition fmul :: "fl \<Rightarrow> fl \<Rightarrow> fl" where
  "fmul a b = (case a of None \<Rightarrow> None
               | Some x \<Rightarrow> (case b of None \<Rightarrow> None | Some y \<Rightarrow> Some (x * y)))"

definition fsub :: "fl \<Rightarrow> fl \<Rightarrow> fl" where
  "fsub a b = (case a of None \<Rightarrow> None
               | Some x \<Rightarrow> (case b of None \<Rightarrow> None | Some y \<Rightarrow> Some (x - y)))"

text \<open>\<open>tf.clip_by_value(t, lo, hi)\<close>: the minimum with \<open>hi\<close>, then the maximum with \<open>lo\<close>.\<close>

definition clip_by_value :: "rat \<Rightarrow> rat \<Rightarrow> rat \<Rightarrow> rat" where
  "clip_by_value t lo hi = max (min t hi) lo"

text \<open>\<open>tf.to_int32\<close> on a float is a cast: it truncates towards zero. The values cast
  in \<open>crop\<close> are bounded by the image dimensions, far below \<open>2 ^ 31\<close> for a decoded JPEG.\<close>

definition to_int32 :: "rat \<Rightarrow> int" where
  "to_int32 x = (if 0 \<le> x then \<lfloor>x\<rfloor> else \<lceil>x\<rceil>)"

text \<open>The failures a run of the pipeline can end in: a failed \<open>assert\<close> of the source,
  an argument or a record the tensor library refuses, and the end of the stream.\<close>

datatype error = AssertionError | InvalidArgumentError | OutOfRangeError

text \<open>A rank-3 tensor: its shape and its elements. An image after decoding has shape
  \<open>[height, width, 3]\<close>.\<close>

record tensor3 =
  dim0 :: nat
  dim1 :: nat
  dim2 :: nat
  elem :: "nat \<Rightarrow> nat \<Rightarrow> nat \<Rightarrow> rat"

text \<open>A box is the stacked vector \<open>[ymin, xmin, ymax, xmax]\<close>; a landmark is a row
  \<open>[y, x]\<close> of the \<open>[num_landmarks, 2]\<close> tensor.\<close>

type_synonym box = "rat \<times> rat \<times> rat \<times> rat"
type_synonym landmark = "fl \<times> fl"

section \<open>Decoding of the box\<close>

text \<open>Lines 100-105 of \<open>_parse_and_preprocess\<close>: the four scalars are stacked and clipped
  to \<open>[0, 1]\<close>.\<close>

definition decode_box :: "box \<Rightarrow> box" where
  "decode_box b = (case b of (ymin, xmin, ymax, xmax) \<Rightarrow>
     (clip_by_value ymin 0 1, clip_by_value xmin 0 1,
      clip_by_value ymax 0 1, clip_by_value xmax 0 1))"

section \<open>The crop routine\<close>

text \<open>Lines 144-155 of \<open>crop\<close>: the box in pixels, widened by half of the margin on each
  side, the lower bounds raised to 0 and the upper bounds lowered to the image size.\<close>

definition crop_bounds :: "nat \<Rightarrow> nat \<Rightarrow> box \<Rightarrow> box" where
  "crop_bounds image_h image_w b = (case b of (bymin, bxmin, bymax, bxmax) \<Rightarrow>
     (let ih = of_nat image_h; iw = of_nat image_w;
          ymin = bymin * ih; xmin = bxmin * iw;
          ymax = bymax * ih; xmax = bxmax * iw;
          h = ymax - ymin; w = xmax - xmin;
          margin_y = h / 2; margin_x = w / 2;
          ymin' = ymin - (1 / 2) * margin_y; xmin' = xmin - (1 / 2) * margin_x;
          ymax' = ymax + (1 / 2) * margin_y; xmax' = xmax + (1 / 2) * margin_x
      in (max ymin' 0, max xmin' 0, min ymax' ih, min xmax' iw)))"

text \<open>The region the specification describes: the box in pixel coordinates, widened on
  each side by \<open>ratio\<close> times its own height (for y) and width (for x), each bound then
  clamped to \<open>[0, image_h]\<close> or \<open>[0, image_w]\<close>. The specification's ratio is one half.\<close>

definition clamp :: "rat \<Rightarrow> rat \<Rightarrow> rat \<Rightarrow> rat" where
  "clamp lo hi x = min (max x lo) hi"

definition expanded_region :: "rat \<Rightarrow> nat \<Rightarrow> nat \<Rightarrow> box \<Rightarrow> box" where
  "expanded_region ratio image_h image_w b = (case b of (bymin, bxmin, bymax, bxmax) \<Rightarrow>
     (let ih = of_nat image_h; iw = of_nat image_w;
          ymin = bymin * ih; xmin = bxmin * iw;
          ymax = bymax * ih; xmax = bxmax * iw;
          h = ymax - ymin; w = xmax - xmin
      in (clamp 0 ih (ymin - ratio * h), clamp 0 iw (xmin - ratio * w),
          clamp 0 ih (ymax + ratio * h), clamp 0 iw (xmax + ratio * w))))"

definition spec_crop_region :: "nat \<Rightarrow> nat \<Rightarrow> box \<Rightarrow> box" where
  "spec_crop_region = expanded_region (1 / 2)"

definition ordered_box :: "box \<Rightarrow> bool" where
  "ordered_box b = (case b of (ymin, xmin, ymax, xmax) \<Rightarrow> ymin \<le> ymax \<and> xmin \<le> xmax)"


text \<open>\<open>tf.image.crop_to_bounding_box\<close>. The library documents that it fails when an
  offset is negative, when a target size is not positive, or when the window does not fit
  in the image; these checks run before the slice is taken. Otherwise the result is the
  window of the image at the given offsets.\<close>

definition crop_to_bounding_box :: "tensor3 \<Rightarrow> int \<Rightarrow> int \<Rightarrow> int \<Rightarrow> int \<Rightarrow> error + tensor3" where
  "crop_to_bounding_box img offset_height offset_width target_height target_width =
     (if offset_width \<ge> 0 \<and> offset_height \<ge> 0 \<and> target_width > 0 \<and> target_height > 0 \<and>
         int (dim1 img) \<ge> target_width + offset_width \<and>
         int (dim0 img) \<ge> target_height + offset_height
      then Inr \<lparr>dim0 = nat target_height, dim1 = nat target_width, dim2 = dim2 img,
                elem = (\<lambda>i j c. elem img (nat offset_height + i) (nat offset_width + j) c)\<rparr>
      else Inl InvalidArgumentError)"

text \<open>Lines 156-159: the four integers handed to \<open>crop_to_bounding_box\<close>, in the order
  offset height, offset width, target height, target width.\<close>

definition crop_window :: "box \<Rightarrow> int \<times> int \<times> int \<times> int" where
  "crop_window bounds = (case bounds of (ymin, xmin, ymax, xmax) \<Rightarrow>
     (to_int32 ymin, to_int32 xmin, to_int32 (ymax - ymin), to_int32 (xmax - xmin)))"

text \<open>Lines 161-163: \<open>shift\<close>, \<open>scaler\<close> and \<open>landmarks * scaler - shift\<close>, broadcast over
  the rows of the landmark tensor.\<close>

definition rebase :: "nat \<Rightarrow> nat \<Rightarrow> box \<Rightarrow> landmark list \<Rightarrow> landmark list" where
  "rebase image_h image_w bounds landmarks = (case bounds of (ymin, xmin, ymax, xmax) \<Rightarrow>
     (let shift = (fdiv ymin (ymax - ymin), fdiv xmin (xmax - xmin));
          scaler = (fdiv (of_nat image_h) (ymax - ymin), fdiv (of_nat image_w) (xmax - xmin))
      in map (\<lambda>(y, x). (fsub (fmul y (fst scaler)) (fst shift),
                         fsub (fmul x (snd scaler)) (snd shift))) landmarks))"

definition crop :: "tensor3 \<Rightarrow> landmark list \<Rightarrow> box \<Rightarrow> error + tensor3 \<times> landmark list" where
  "crop img landmarks b =
     (let image_h = dim0 img; image_w = dim1 img;
          bounds = crop_bounds image_h image_w b
      in case crop_window bounds of (oy, ox, th, tw) \<Rightarrow>
           (case crop_to_bounding_box img oy ox th tw of
              Inl e \<Rightarrow> Inl e
            | Inr img' \<Rightarrow> Inr (img', rebase image_h image_w bounds landmarks)))"

text \<open>The rebasing as the specification words it, for one coordinate:
  \<open>(old * image_extent - crop_origin) / crop_extent\<close>.\<close>

definition spec_rebase :: "fl \<Rightarrow> rat \<Rightarrow> rat \<Rightarrow> rat \<Rightarrow> fl" where
  "spec_rebase old image_extent crop_origin crop_extent =
     (case old of None \<Rightarrow> None
      | Some v \<Rightarrow> fdiv (v * image_extent - crop_origin) crop_extent)"

definition spec_rebase_landmarks :: "nat \<Rightarrow> nat \<Rightarrow> box \<Rightarrow> landmark list \<Rightarrow> landmark list" where
  "spec_rebase_landmarks image_h image_w bounds landmarks =
     (case bounds of (ymin, xmin, ymax, xmax) \<Rightarrow>
        map (\<lambda>(y, x). (spec_rebase y (of_nat image_h) ymin (ymax - ymin),
                       spec_rebase x (of_nat image_w) xmin (xmax - xmin))) landmarks)"

text \<open>The inverse of the rebasing, for one coordinate:
  \<open>(new * crop_extent + crop_origin) / image_extent\<close>.\<close>

definition spec_unrebase :: "fl \<Rightarrow> rat \<Rightarrow> rat \<Rightarrow> rat \<Rightarrow> fl" where
  "spec_unrebase new image_extent crop_origin crop_extent =
     (case new of None \<Rightarrow> None
      | Some v \<Rightarrow> fdiv (v * crop_extent + crop_origin) image_extent)"

definition unrebase :: "nat \<Rightarrow> nat \<Rightarrow> box \<Rightarrow> landmark list \<Rightarrow> landmark list" where
  "unrebase image_h image_w bounds landmarks = (case bounds of (ymin, xmin, ymax, xmax) \<Rightarrow>
     map (\<lambda>(y, x). (spec_unrebase y (of_nat image_h) ymin (ymax - ymin),
                    spec_unrebase x (of_nat image_w) xmin (xmax - xmin))) landmarks)"

text \<open>The precondition of the crop: the box has strictly positive height and width in
  pixels.\<close>

definition crop_precondition :: "nat \<Rightarrow> nat \<Rightarrow> box \<Rightarrow> bool" where
  "crop_precondition image_h image_w b = (case b of (ymin, xmin, ymax, xmax) \<Rightarrow>
     0 < ymax * of_nat image_h - ymin * of_nat image_h \<and>
     0 < xmax * of_nat image_w - xmin * of_nat image_w)"

text \<open>The pixel rows and columns the image crop covers are
  \<open>[offset, offset + target)\<close>; the frame the landmarks are rebased into is
  \<open>[ymin, ymax)\<close> by \<open>[xmin, xmax)\<close>.\<close>

definition window_is_frame :: "box \<Rightarrow> bool" where
  "window_is_frame bounds = (case bounds of (ymin, xmin, ymax, xmax) \<Rightarrow>
     (case crop_window bounds of (oy, ox, th, tw) \<Rightarrow>
        of_int oy = ymin \<and> of_int ox = xmin \<and>
        of_int (oy + th) = ymax \<and> of_int (ox + tw) = xmax))"

definition integral :: "rat \<Rightarrow> bool" where
  "integral x = (of_int \<lfloor>x\<rfloor> = x)"

definition integral_bounds :: "box \<Rightarrow> bool" where
  "integral_bounds bounds = (case bounds of (ymin, xmin, ymax, xmax) \<Rightarrow>
     integral ymin \<and> integral xmin \<and> integral ymax \<and> integral xmax)"

section \<open>The per-record transform\<close>

text \<open>One serialized record, as \<open>tf.parse_single_example\<close> and \<open>tf.image.decode_jpeg\<close>
  deliver it: the decoded picture (its height, its width and its pixel values, already
  scaled to floats by \<open>convert_image_dtype\<close>), the four box scalars and the landmark
  scalars.\<close>

record example_proto =
  jpeg_height :: nat
  jpeg_width :: nat
  jpeg_pixels :: "nat \<Rightarrow> nat \<Rightarrow> nat \<Rightarrow> rat"
  ymin_feature :: rat
  xmin_feature :: rat
  ymax_feature :: rat
  xmax_feature :: rat
  landmarks_feature :: "rat list"

text \<open>What the pipeline calls but does not define. \<open>RESIZE_METHOD\<close> is the interpolation
  of \<open>tf.image.resize_images\<close>: the value of the resized image at a row, column and
  channel. The five \<open>random_\<close> functions are those of the \<open>augmentations\<close> module, each
  taken as the function it is for the random numbers drawn for one record, with the
  hyperparameters the pipeline passes. The two shuffles are the orders
  \<open>Dataset.shuffle\<close> delivers.\<close>

record externals =
  RESIZE_METHOD :: "tensor3 \<Rightarrow> nat \<Rightarrow> nat \<Rightarrow> nat \<Rightarrow> nat \<Rightarrow> nat \<Rightarrow> rat"
  random_rotation :: "tensor3 \<Rightarrow> box \<Rightarrow> landmark list \<Rightarrow> rat \<Rightarrow> tensor3 \<times> box \<times> landmark list"
  random_color_manipulations :: "tensor3 \<Rightarrow> rat \<Rightarrow> rat \<Rightarrow> tensor3"
  random_pixel_value_scale :: "tensor3 \<Rightarrow> rat \<Rightarrow> rat \<Rightarrow> rat \<Rightarrow> tensor3"
  random_gaussian_blur :: "tensor3 \<Rightarrow> rat \<Rightarrow> nat \<Rightarrow> tensor3"
  random_flip_left_right :: "tensor3 \<Rightarrow> landmark list \<Rightarrow> tensor3 \<times> landmark list"
  shuffle_files :: "example_proto list list \<Rightarrow> example_proto list list"
  shuffle_records :: "example_proto list \<Rightarrow> example_proto list"

text \<open>\<open>tf.image.resize_images(img, [new_height, new_width], method)\<close>: the result has
  the new height and width and the channels of its argument.\<close>

definition resize_images :: "(tensor3 \<Rightarrow> nat \<Rightarrow> nat \<Rightarrow> nat \<Rightarrow> nat \<Rightarrow> nat \<Rightarrow> rat) \<Rightarrow>
    tensor3 \<Rightarrow> nat \<Rightarrow> nat \<Rightarrow> tensor3" where
  "resize_images method img new_height new_width =
     \<lparr>dim0 = new_height, dim1 = new_width, dim2 = dim2 img,
      elem = method img new_height new_width\<rparr>"

text \<open>\<open>tf.transpose(img, perm=[2, 0, 1])\<close>.\<close>

definition transpose_201 :: "tensor3 \<Rightarrow> tensor3" where
  "transpose_201 img =
     \<lparr>dim0 = dim2 img, dim1 = dim0 img, dim2 = dim1 img,
      elem = (\<lambda>c i j. elem img i j c)\<rparr>"

text \<open>The local variables \<open>image\<close>, \<open>box\<close> and \<open>landmarks\<close> of \<open>_parse_and_preprocess\<close>
  and \<open>_augmentation_fn\<close>; each statement of the two functions assigns to some of them.\<close>

record example =
  ex_image :: tensor3
  ex_box :: box
  ex_landmarks :: "landmark list"

definition crop_step :: "example \<Rightarrow> error + example" where
  "crop_step s = (case crop (ex_image s) (ex_landmarks s) (ex_box s) of
       Inl e \<Rightarrow> Inl e
     | Inr (img, landmarks) \<Rightarrow>
         Inr (s\<lparr>ex_image := img, ex_landmarks := landmarks\<rparr>))"

definition resize_step :: "externals \<Rightarrow> nat \<Rightarrow> nat \<Rightarrow> example \<Rightarrow> example" where
  "resize_step ext image_height image_width s =
     s\<lparr>ex_image := resize_images (RESIZE_METHOD ext) (ex_image s) image_height image_width\<rparr>"

definition rotation_step :: "externals \<Rightarrow> example \<Rightarrow> example" where
  "rotation_step ext s =
     (case random_rotation ext (ex_image s) (ex_box s) (ex_landmarks s) 30 of
        (img, b, landmarks) \<Rightarrow>
          s\<lparr>ex_image := img, ex_box := b, ex_landmarks := landmarks\<rparr>)"

definition color_step :: "externals \<Rightarrow> example \<Rightarrow> example" where
  "color_step ext s =
     s\<lparr>ex_image := random_color_manipulations ext (ex_image s) (15 / 100) (5 / 100)\<rparr>"

definition pixel_scale_step :: "externals \<Rightarrow> example \<Rightarrow> example" where
  "pixel_scale_step ext s =
     s\<lparr>ex_image := random_pixel_value_scale ext (ex_image s) (85 / 100) (115 / 100) (15 / 100)\<rparr>"

definition blur_step :: "externals \<Rightarrow> example \<Rightarrow> example" where
  "blur_step ext s =
     s\<lparr>ex_image := random_gaussian_blur ext (ex_image s) (3 / 10) 5\<rparr>"

definition flip_step :: "externals \<Rightarrow> example \<Rightarrow> example" where
  "flip_step ext s =
     (case random_flip_left_right ext (ex_image s) (ex_landmarks s) of
        (img, landmarks) \<Rightarrow>
          s\<lparr>ex_image := img, ex_landmarks := landmarks\<rparr>)"

text \<open>\<open>_augmentation_fn\<close>, lines 124-140. The two commented-out lines (box jitter and
  crop) are not part of it.\<close>

definition augmentation_fn :: "externals \<Rightarrow> nat \<Rightarrow> nat \<Rightarrow> example \<Rightarrow> example" where
  "augmentation_fn ext image_height image_width s =
     flip_step ext (blur_step ext (pixel_scale_step ext (color_step ext
       (resize_step ext image_height image_width (rotation_step ext s)))))"

fun pairs :: "'a list \<Rightarrow> ('a \<times> 'a) list" where
  "pairs (y # x # rest) = (y, x) # pairs rest"
| "pairs rest = []"

text \<open>Lines 95-96: the decoded picture, with three channels. Lines 100-105: the box of
  the record, clipped. Lines 108-110: the landmark scalars as rows \<open>[y, x]\<close>, clipped.\<close>

definition decode_image :: "example_proto \<Rightarrow> tensor3" where
  "decode_image example_proto =
     \<lparr>dim0 = jpeg_height example_proto, dim1 = jpeg_width example_proto,
      dim2 = 3, elem = jpeg_pixels example_proto\<rparr>"

definition parsed_box :: "example_proto \<Rightarrow> box" where
  "parsed_box example_proto =
     decode_box (ymin_feature example_proto, xmin_feature example_proto,
                 ymax_feature example_proto, xmax_feature example_proto)"

definition decode_landmarks :: "example_proto \<Rightarrow> landmark list" where
  "decode_landmarks example_proto =
     map (\<lambda>(y, x). (Some (clip_by_value y 0 1), Some (clip_by_value x 0 1)))
       (pairs (landmarks_feature example_proto))"

text \<open>\<open>_parse_and_preprocess\<close>, lines 72-122, as the state it ends in. A record whose
  landmark feature does not hold \<open>2 * num_landmarks\<close> scalars is refused by the parser.\<close>

definition preprocess :: "externals \<Rightarrow> nat \<Rightarrow> nat \<Rightarrow> nat \<Rightarrow> bool \<Rightarrow> example_proto \<Rightarrow> error + example" where
  "preprocess ext image_width image_height num_landmarks augmentation example_proto =
     (if length (landmarks_feature example_proto) \<noteq> 2 * num_landmarks
      then Inl InvalidArgumentError
      else
        let s = \<lparr>ex_image = decode_image example_proto, ex_box = parsed_box example_proto,
                 ex_landmarks = decode_landmarks example_proto\<rparr>
        in case (if augmentation
                 then Inr (augmentation_fn ext image_height image_width s)
                 else (case crop_step s of
                         Inl e \<Rightarrow> Inl e
                       | Inr s' \<Rightarrow> Inr (resize_step ext image_height image_width s'))) of
             Inl e \<Rightarrow> Inl e
           | Inr s' \<Rightarrow> Inr (s'\<lparr>ex_image := transpose_201 (ex_image s')\<rparr>))"

text \<open>What \<open>_parse_and_preprocess\<close> returns: the image and the landmarks.\<close>

definition parse_and_preprocess ::
    "externals \<Rightarrow> nat \<Rightarrow> nat \<Rightarrow> nat \<Rightarrow> bool \<Rightarrow> example_proto \<Rightarrow> error + tensor3 \<times> landmark list" where
  "parse_and_preprocess ext image_width image_height num_landmarks augmentation example_proto =
     (case preprocess ext image_width image_height num_landmarks augmentation example_proto of
        Inl e \<Rightarrow> Inl e
      | Inr s \<Rightarrow> Inr (ex_image s, ex_landmarks s))"

section \<open>The pipeline object\<close>

text \<open>Lines 35-39: the loop over the files, with its \<open>assert\<close>.\<close>

fun count_examples :: "example_proto list list \<Rightarrow> nat \<Rightarrow> error + nat" where
  "count_examples [] num_examples = Inr num_examples"
| "count_examples (file # files) num_examples =
     (let num_examples_in_file = length file
      in if \<not> num_examples_in_file > 0 then Inl AssertionError
         else count_examples files (num_examples + num_examples_in_file))"

text \<open>The fields of \<open>Pipeline\<close>. The iterator is the list of the elements one pass of
  the mapped dataset delivers, whether the pass is repeated without end, and the number
  of elements consumed so far. A shard is the list of its records.\<close>

record pipeline =
  image_width :: nat
  image_height :: nat
  augmentation :: bool
  batch_size :: nat
  num_landmarks :: nat
  num_examples :: nat
  elements :: "(error + tensor3 \<times> landmark list) list"
  repeating :: bool
  cursor :: nat

text \<open>\<open>Pipeline.__init__\<close>. Prefetching does not change what the stream delivers.\<close>

definition Pipeline_init :: "externals \<Rightarrow> example_proto list list \<Rightarrow> nat \<Rightarrow> nat \<times> nat \<Rightarrow> nat \<Rightarrow>
    bool \<Rightarrow> bool \<Rightarrow> bool \<Rightarrow> error + pipeline" where
  "Pipeline_init ext filenames bsize image_size nlandmarks repeat shuffle aug =
     (case image_size of (width, height) \<Rightarrow>
        (case count_examples filenames 0 of
           Inl e \<Rightarrow> Inl e
         | Inr n \<Rightarrow>
             if \<not> n > 0 then Inl AssertionError
             else
               let dataset = (if shuffle then shuffle_files ext filenames else filenames);
                   dataset = concat dataset;
                   dataset = (if shuffle then shuffle_records ext dataset else dataset);
                   dataset = map (parse_and_preprocess ext width height nlandmarks aug) dataset
               in Inr \<lparr>image_width = width, image_height = height, augmentation = aug,
                        batch_size = bsize, num_landmarks = nlandmarks, num_examples = n,
                        elements = dataset, repeating = repeat, cursor = 0\<rparr>))"

text \<open>The element at position \<open>i\<close> of the stream \<open>dataset.repeat(None if repeat else 1)\<close>.
  Every repetition delivers the elements in the same order: a new shuffle for each
  repetition is not modelled, and no statement below depends on the order.\<close>

definition fetch :: "pipeline \<Rightarrow> nat \<Rightarrow> (error + tensor3 \<times> landmark list) option" where
  "fetch p i =
     (if repeating p
      then (if elements p = [] then None
            else Some (elements p ! (i mod length (elements p))))
      else (if i < length (elements p) then Some (elements p ! i) else None))"

text \<open>\<open>dataset.batch(batch_size)\<close>, called without \<open>drop_remainder\<close>: a batch takes up to
  \<open>batch_size\<close> elements from the stream and stops early only where the stream ends; an
  element whose transform failed fails the batch.\<close>

fun pull :: "pipeline \<Rightarrow> nat \<Rightarrow> nat \<Rightarrow> (tensor3 \<times> landmark list) list \<Rightarrow>
    (error + (tensor3 \<times> landmark list) list) \<times> nat" where
  "pull p 0 i acc = (Inr (rev acc), i)"
| "pull p (Suc k) i acc =
     (case fetch p i of
        None \<Rightarrow> (Inr (rev acc), i)
      | Some (Inl e) \<Rightarrow> (Inl e, Suc i)
      | Some (Inr x) \<Rightarrow> pull p k (Suc i) (x # acc))"

text \<open>\<open>get_batch\<close>: the next batch as the pair of its images and its landmarks, or the
  end-of-stream signal \<open>OutOfRangeError\<close> of \<open>iterator.get_next\<close> when the stream has no
  element left. The library refuses a batch size of zero when the iterator is first run.\<close>

definition get_batch :: "pipeline \<Rightarrow> (error + tensor3 list \<times> landmark list list) \<times> pipeline" where
  "get_batch p =
     (if batch_size p = 0 then (Inl InvalidArgumentError, p)
      else
        (case pull p (batch_size p) (cursor p) [] of
           (r, i) \<Rightarrow>
             ((case r of
                 Inl e \<Rightarrow> Inl e
               | Inr [] \<Rightarrow> Inl OutOfRangeError
               | Inr (x # xs) \<Rightarrow> Inr (map fst (x # xs), map snd (x # xs))),
              p\<lparr>cursor := i\<rparr>)))"

text \<open>The results of the first \<open>n\<close> calls of \<open>get_batch\<close>.\<close>

fun get_batches :: "nat \<Rightarrow> pipeline \<Rightarrow> (error + tensor3 list \<times> landmark list list) list" where
  "get_batches 0 p = []"
| "get_batches (Suc n) p = (case get_batch p of (r, p') \<Rightarrow> r # get_batches n p')"

section \<open>What is assumed of the externals\<close>

text \<open>A tensor whose elements all lie in \<open>[0, 1]\<close>; an interpolation that, on a picture
  that is not empty, yields values in \<open>[0, 1]\<close> from values in \<open>[0, 1]\<close>, as a bilinear
  interpolation does; a record whose decoded picture is not empty and has its values in
  \<open>[0, 1]\<close>, as \<open>convert_image_dtype\<close> leaves them.\<close>

definition unit_valued :: "tensor3 \<Rightarrow> bool" where
  "unit_valued t = (\<forall>i<dim0 t. \<forall>j<dim1 t. \<forall>c<dim2 t. 0 \<le> elem t i j c \<and> elem t i j c \<le> 1)"

definition range_preserving :: "(tensor3 \<Rightarrow> nat \<Rightarrow> nat \<Rightarrow> nat \<Rightarrow> nat \<Rightarrow> nat \<Rightarrow> rat) \<Rightarrow> bool" where
  "range_preserving method = (\<forall>img new_height new_width.
     0 < dim0 img \<and> 0 < dim1 img \<and> unit_valued img \<longrightarrow>
     unit_valued (resize_images method img new_height new_width))"

definition unit_pixels :: "example_proto \<Rightarrow> bool" where
  "unit_pixels r = (0 < jpeg_height r \<and> 0 < jpeg_width r \<and> unit_valued (decode_image r))"

text \<open>Landmarks whose coordinates are all finite, and landmarks whose coordinates all lie in
  \<open>[0, 1]\<close>.\<close>

definition finite_landmarks :: "landmark list \<Rightarrow> bool" where
  "finite_landmarks landmarks = (\<forall>(y, x)\<in>set landmarks. y \<noteq> None \<and> x \<noteq> None)"

definition unit_coordinate :: "fl \<Rightarrow> bool" where
  "unit_coordinate v = (case v of None \<Rightarrow> False | Some q \<Rightarrow> 0 \<le> q \<and> q \<le> 1)"

definition unit_landmarks :: "landmark list \<Rightarrow> bool" where
  "unit_landmarks landmarks = (\<forall>(y, x)\<in>set landmarks. unit_coordinate y \<and> unit_coordinate x)"

text \<open>The augmentations return an image of the shape of the one they are given and as many
  landmarks as they are given.\<close>

definition same_shape :: "tensor3 \<Rightarrow> tensor3 \<Rightarrow> bool" where
  "same_shape s t = (dim0 s = dim0 t \<and> dim1 s = dim1 t \<and> dim2 s = dim2 t)"

definition keeps_shape :: "externals \<Rightarrow> bool" where
  "keeps_shape ext = (\<forall>img b landmarks.
     same_shape (fst (random_rotation ext img b landmarks 30)) img \<and>
     length (snd (snd (random_rotation ext img b landmarks 30))) = length landmarks \<and>
     same_shape (random_color_manipulations ext img (15 / 100) (5 / 100)) img \<and>
     same_shape (random_pixel_value_scale ext img (85 / 100) (115 / 100) (15 / 100)) img \<and>
     same_shape (random_gaussian_blur ext img (3 / 10) 5) img \<and>
     same_shape (fst (random_flip_left_right ext img landmarks)) img \<and>
     length (snd (random_flip_left_right ext img landmarks)) = length landmarks)"

text \<open>The augmentations return pixel values in \<open>[0, 1]\<close> when they are given such.\<close>

definition keeps_range :: "externals \<Rightarrow> bool" where
  "keeps_range ext = (\<forall>img b landmarks. unit_valued img \<longrightarrow>
     unit_valued (fst (random_rotation ext img b landmarks 30)) \<and>
     unit_valued (random_color_manipulations ext img (15 / 100) (5 / 100)) \<and>
     unit_valued (random_pixel_value_scale ext img (85 / 100) (115 / 100) (15 / 100)) \<and>
     unit_valued (random_gaussian_blur ext img (3 / 10) 5) \<and>
     unit_valued (fst (random_flip_left_right ext img landmarks)))"

text \<open>The rotation and the flip return landmarks in \<open>[0, 1]\<close> when they are given such.\<close>

definition keeps_landmarks :: "externals \<Rightarrow> bool" where
  "keeps_landmarks ext = (\<forall>img b landmarks. unit_landmarks landmarks \<longrightarrow>
     unit_landmarks (snd (snd (random_rotation ext img b landmarks 30))) \<and>
     unit_landmarks (snd (random_flip_left_right ext img landmarks)))"

text \<open>The shuffles deliver records of their input and nothing else.\<close>

definition delivers_input_records :: "externals \<Rightarrow> bool" where
  "delivers_input_records ext =
     ((\<forall>files. set (concat (shuffle_files ext files)) \<subseteq> set (concat files)) \<and>
      (\<forall>records. set (shuffle_records ext records) \<subseteq> set records))"

section \<open>Sample inputs\<close>

text \<open>A uniformly grey picture of a given height and width.\<close>

definition test_image :: "nat \<Rightarrow> nat \<Rightarrow> tensor3" where
  "test_image h w = \<lparr>dim0 = h, dim1 = w, dim2 = 3, elem = (\<lambda>i j c. 1 / 2)\<rparr>"

text \<open>Externals that leave their arguments as they are: a resize that repeats the top
  left pixel, augmentations and shuffles that change nothing.\<close>

definition sample_externals :: externals where
  "sample_externals =
     \<lparr>RESIZE_METHOD = (\<lambda>img new_height new_width i j c. elem img 0 0 c),
      random_rotation = (\<lambda>img b landmarks max_angle. (img, b, landmarks)),
      random_color_manipulations = (\<lambda>img probability grayscale_probability. img),
      random_pixel_value_scale = (\<lambda>img minval maxval probability. img),
      random_gaussian_blur = (\<lambda>img probability kernel_size. img),
      random_flip_left_right = (\<lambda>img landmarks. (img, landmarks)),
      shuffle_files = (\<lambda>files. files),
      shuffle_records = (\<lambda>records. records)\<rparr>"

text \<open>A record with a 64 by 64 picture, the box \<open>(1/32, 1/32, 13/32, 13/32)\<close> and the two
  landmarks \<open>(1, 1)\<close> and \<open>(0, 0)\<close>; two shards of five such records; and what the
  transform without augmentation makes of the record for an 8 by 8 target.\<close>

definition sample_record :: example_proto where
  "sample_record =
     \<lparr>jpeg_height = 64, jpeg_width = 64, jpeg_pixels = (\<lambda>i j c. 1 / 2),
      ymin_feature = 1 / 32, xmin_feature = 1 / 32,
      ymax_feature = 13 / 32, xmax_feature = 13 / 32,
      landmarks_feature = [1, 1, 0, 0]\<rparr>"

text \<open>The same record with a box of no height and no width.\<close>

definition degenerate_record :: example_proto where
  "degenerate_record =
     sample_record\<lparr>ymin_feature := 1 / 2, xmin_feature := 1 / 2,
                   ymax_feature := 1 / 2, xmax_feature := 1 / 2\<rparr>"

text \<open>Externals that do not commute: every one of them changes the pixel values in its own
  way (add 1, double, add 3, times 5, add 7, times 11), the rotation swaps the two
  coordinates of every landmark and the flip mirrors x.\<close>

definition order_externals :: externals where
  "order_externals =
     \<lparr>RESIZE_METHOD = (\<lambda>img new_height new_width i j c. 2 * elem img 0 0 c),
      random_rotation = (\<lambda>img b landmarks max_angle.
        (img\<lparr>elem := (\<lambda>i j c. elem img i j c + 1)\<rparr>, b, map (\<lambda>(y, x). (x, y)) landmarks)),
      random_color_manipulations = (\<lambda>img probability grayscale_probability.
        img\<lparr>elem := (\<lambda>i j c. elem img i j c + 3)\<rparr>),
      random_pixel_value_scale = (\<lambda>img minval maxval probability.
        img\<lparr>elem := (\<lambda>i j c. 5 * elem img i j c)\<rparr>),
      random_gaussian_blur = (\<lambda>img probability kernel_size.
        img\<lparr>elem := (\<lambda>i j c. elem img i j c + 7)\<rparr>),
      random_flip_left_right = (\<lambda>img landmarks.
        (img\<lparr>elem := (\<lambda>i j c. 11 * elem img i j c)\<rparr>,
         map (\<lambda>(y, x). (y, fsub (Some 1) x)) landmarks)),
      shuffle_files = (\<lambda>files. files),
      shuffle_records = (\<lambda>records. records)\<rparr>"

definition sample_files :: "example_proto list list" where
  "sample_files = [replicate 5 sample_record, replicate 5 sample_record]"

definition sample_element :: "tensor3 \<times> landmark list" where
  "sample_element = (\<lparr>dim0 = 3, dim1 = 8, dim2 = 8, elem = (\<lambda>c i j. 1 / 2)\<rparr>, [(Some 2, Some 2), (Some 0, Some 0)])"

section \<open>The crop region\<close>

lemma clip_by_value_unit: "0 \<le> clip_by_value t 0 1 \<and> clip_by_value t 0 1 \<le> 1"
  by (simp add: clip_by_value_def)

lemma scaled_le: "0 \<le> (a::rat) \<Longrightarrow> a \<le> 1 \<Longrightarrow> a * of_nat n \<le> of_nat n"
  by (simp add: mult_left_le_one_le)

lemma widen_lower:
  fixes p q hi :: rat
  assumes "p \<le> q" "q \<le> hi" "0 \<le> hi"
  shows "clamp 0 hi (p - (q - p) / 4) = max (p - (q - p) / 4) 0"
proof -
  have "0 \<le> (q - p) / 4" using assms by simp
  then have "p - (q - p) / 4 \<le> hi" using assms by linarith
  then show ?thesis using assms by (simp add: clamp_def)
qed

lemma widen_upper:
  fixes p q hi :: rat
  assumes "0 \<le> p" "p \<le> q"
  shows "clamp 0 hi (q + (q - p) / 4) = min (q + (q - p) / 4) hi"
proof -
  have "0 \<le> q + (q - p) / 4" using assms by simp
  then show ?thesis by (simp add: clamp_def)
qed

lemma decode_box_unit:
  assumes "decode_box b = (ymin, xmin, ymax, xmax)"
  shows "0 \<le> ymin \<and> ymin \<le> 1 \<and> 0 \<le> xmin \<and> xmin \<le> 1 \<and>
         0 \<le> ymax \<and> ymax \<le> 1 \<and> 0 \<le> xmax \<and> xmax \<le> 1"
  using assms clip_by_value_unit
  by (auto simp: decode_box_def split: prod.splits)

lemma crop_bounds_unfold:
  "crop_bounds image_h image_w (ymin, xmin, ymax, xmax) =
     (max (ymin * of_nat image_h - (ymax * of_nat image_h - ymin * of_nat image_h) / 4) 0,
      max (xmin * of_nat image_w - (xmax * of_nat image_w - xmin * of_nat image_w) / 4) 0,
      min (ymax * of_nat image_h + (ymax * of_nat image_h - ymin * of_nat image_h) / 4) (of_nat image_h),
      min (xmax * of_nat image_w + (xmax * of_nat image_w - xmin * of_nat image_w) / 4) (of_nat image_w))"
  by (simp add: crop_bounds_def Let_def)

lemma expanded_region_quarter:
  "expanded_region (1 / 4) image_h image_w (ymin, xmin, ymax, xmax) =
     (clamp 0 (of_nat image_h) (ymin * of_nat image_h - (ymax * of_nat image_h - ymin * of_nat image_h) / 4),
      clamp 0 (of_nat image_w) (xmin * of_nat image_w - (xmax * of_nat image_w - xmin * of_nat image_w) / 4),
      clamp 0 (of_nat image_h) (ymax * of_nat image_h + (ymax * of_nat image_h - ymin * of_nat image_h) / 4),
      clamp 0 (of_nat image_w) (xmax * of_nat image_w + (xmax * of_nat image_w - xmin * of_nat image_w) / 4))"
  by (simp add: expanded_region_def Let_def)

text \<open>
  C1 (as the code has it). For every image and every box clipped to \<open>[0, 1]\<close> at decode
  time, the region \<open>crop\<close> computes is the box in pixel coordinates widened on each of its
  four sides by one quarter of the box's own height (for y) and width (for x), that is by
  half of the margin, the margin being half of the dimension; the lower bounds are then
  raised to at least 0 and the upper bounds lowered to at most the image height and
  width. For a box with \<open>ymin \<le> ymax\<close> and \<open>xmin \<le> xmax\<close> this is the widened box clamped
  to \<open>[0, image_h]\<close> and \<open>[0, image_w]\<close>.
\<close>

theorem crop_bounds_quarter_margin:
  "crop_bounds image_h image_w (decode_box b) =
     (case decode_box b of (ymin, xmin, ymax, xmax) \<Rightarrow>
        (max (ymin * of_nat image_h - (ymax * of_nat image_h - ymin * of_nat image_h) / 4) 0,
         max (xmin * of_nat image_w - (xmax * of_nat image_w - xmin * of_nat image_w) / 4) 0,
         min (ymax * of_nat image_h + (ymax * of_nat image_h - ymin * of_nat image_h) / 4) (of_nat image_h),
         min (xmax * of_nat image_w + (xmax * of_nat image_w - xmin * of_nat image_w) / 4) (of_nat image_w)))
   \<and> (ordered_box (decode_box b) \<longrightarrow>
        crop_bounds image_h image_w (decode_box b) =
        expanded_region (1 / 4) image_h image_w (decode_box b))"
proof -
  obtain ymin xmin ymax xmax where d: "decode_box b = (ymin, xmin, ymax, xmax)"
    by (cases "decode_box b") auto
  note unit = decode_box_unit [OF d]
  have first: "crop_bounds image_h image_w (decode_box b) =
     (max (ymin * of_nat image_h - (ymax * of_nat image_h - ymin * of_nat image_h) / 4) 0,
      max (xmin * of_nat image_w - (xmax * of_nat image_w - xmin * of_nat image_w) / 4) 0,
      min (ymax * of_nat image_h + (ymax * of_nat image_h - ymin * of_nat image_h) / 4) (of_nat image_h),
      min (xmax * of_nat image_w + (xmax * of_nat image_w - xmin * of_nat image_w) / 4) (of_nat image_w))"
    unfolding d by (rule crop_bounds_unfold)
  have second: "crop_bounds image_h image_w (decode_box b) =
        expanded_region (1 / 4) image_h image_w (decode_box b)" if o: "ordered_box (decode_box b)"
  proof -
    from o d have "ymin \<le> ymax" "xmin \<le> xmax" by (simp_all add: ordered_box_def)
    then have le: "ymin * of_nat image_h \<le> ymax * of_nat image_h"
                  "xmin * of_nat image_w \<le> xmax * of_nat image_w"
      by (simp_all add: mult_right_mono)
    show ?thesis
      unfolding d crop_bounds_unfold expanded_region_quarter
      using le unit by (simp add: widen_lower widen_upper scaled_le)
  qed
  show ?thesis using first second by (simp add: d)
qed

theorem crop_bounds_quarter_margin_witness:
  "ordered_box (decode_box (1 / 4, 1 / 4, 3 / 4, 3 / 4)) \<and>
   crop_bounds 64 64 (decode_box (1 / 4, 1 / 4, 3 / 4, 3 / 4)) =
   expanded_region (1 / 4) 64 64 (decode_box (1 / 4, 1 / 4, 3 / 4, 3 / 4))"
proof -
  have o: "ordered_box (decode_box (1 / 4, 1 / 4, 3 / 4, 3 / 4))"
    by (simp add: ordered_box_def decode_box_def clip_by_value_def)
  from crop_bounds_quarter_margin [of 64 64 "(1 / 4, 1 / 4, 3 / 4, 3 / 4)"] o
  show ?thesis by blast
qed

text \<open>
  C1 as the specification states it, with a widening of one half of the box's height and
  width and a clamp of every bound to the image, fails: on a 64 by 64 image the box
  \<open>(1/4, 1/4, 3/4, 3/4)\<close> is cropped to rows and columns 8 to 56, where the specification
  gives 0 to 64; and for the box \<open>(1, 1, 0, 0)\<close>, whose bounds are in the wrong order, the
  lower bounds 80 are above the image size and the upper bounds -16 below 0.
\<close>

theorem crop_region_half_margin_counterexample:
  "crop_bounds 64 64 (decode_box (1 / 4, 1 / 4, 3 / 4, 3 / 4)) = (8, 8, 56, 56) \<and>
   spec_crop_region 64 64 (decode_box (1 / 4, 1 / 4, 3 / 4, 3 / 4)) = (0, 0, 64, 64) \<and>
   crop_bounds 64 64 (decode_box (1, 1, 0, 0)) = (80, 80, -16, -16) \<and>
   expanded_region (1 / 4) 64 64 (decode_box (1, 1, 0, 0)) = (64, 64, 0, 0)"
  by (simp add: crop_bounds_def spec_crop_region_def expanded_region_def decode_box_def
      clip_by_value_def clamp_def Let_def)


section \<open>The landmark rebasing\<close>

lemma rebase_coordinate:
  "fsub (fmul v (fdiv extent d)) (fdiv origin d) = spec_rebase v extent origin d"
  by (cases v) (simp_all add: fsub_def fmul_def fdiv_def spec_rebase_def diff_divide_distrib)

lemma rebase_is_spec:
  "rebase image_h image_w bounds landmarks = spec_rebase_landmarks image_h image_w bounds landmarks"
  by (cases bounds) (simp add: rebase_def spec_rebase_landmarks_def rebase_coordinate Let_def)

lemma crop_landmarks:
  assumes "crop img landmarks b = Inr (img', landmarks')"
  shows "landmarks' = rebase (dim0 img) (dim1 img) (crop_bounds (dim0 img) (dim1 img) b) landmarks"
  using assms by (auto simp: crop_def Let_def split: prod.splits sum.splits)

text \<open>
  C2. For every landmark \<open>(y, x)\<close> in normalized coordinates of the image before the crop,
  \<open>crop\<close> returns \<open>(old * image_extent - crop_origin) / crop_extent\<close> on each axis: y with
  the image height, the region's \<open>ymin\<close> and its height, x with the image width, the
  region's \<open>xmin\<close> and its width, the region being the clamped widened box. Where an extent
  is zero both sides are the non-finite result of the division.
\<close>

theorem crop_rebases_landmarks:
  "rebase image_h image_w bounds landmarks = spec_rebase_landmarks image_h image_w bounds landmarks \<and>
   (crop img landmarks b = Inr (img', landmarks') \<longrightarrow>
      landmarks' = spec_rebase_landmarks (dim0 img) (dim1 img)
                     (crop_bounds (dim0 img) (dim1 img) b) landmarks)"
  using crop_landmarks [of img landmarks b img' landmarks']
  by (simp add: rebase_is_spec)

lemma crop_bounds_sample:
  "crop_bounds 64 64 (decode_box (1 / 4, 1 / 4, 3 / 4, 3 / 4)) = (8, 8, 56, 56)"
  by (simp add: crop_bounds_def decode_box_def clip_by_value_def Let_def)

lemma crop_sample_succeeds:
  "\<not> isl (crop (test_image 64 64) landmarks (decode_box (1 / 4, 1 / 4, 3 / 4, 3 / 4)))"
  by (simp add: crop_def crop_bounds_sample Let_def crop_window_def to_int32_def
      crop_to_bounding_box_def test_image_def)

theorem crop_rebases_landmarks_witness:
  "\<not> isl (crop (test_image 64 64) [(Some (1 / 2), Some (1 / 4))] (decode_box (1 / 4, 1 / 4, 3 / 4, 3 / 4))) \<and>
   snd (projr (crop (test_image 64 64) [(Some (1 / 2), Some (1 / 4))] (decode_box (1 / 4, 1 / 4, 3 / 4, 3 / 4))))
     = spec_rebase_landmarks 64 64 (8, 8, 56, 56) [(Some (1 / 2), Some (1 / 4))] \<and>
   spec_rebase_landmarks 64 64 (8, 8, 56, 56) [(Some (1 / 2), Some (1 / 4))] = [(Some (1 / 2), Some (1 / 6))]"
proof -
  let ?r = "crop (test_image 64 64) [(Some (1 / 2), Some (1 / 4))] (decode_box (1 / 4, 1 / 4, 3 / 4, 3 / 4))"
  have ok: "\<not> isl ?r" by (rule crop_sample_succeeds)
  then have "?r = Inr (fst (projr ?r), snd (projr ?r))"
    by (cases ?r) simp_all
  with crop_rebases_landmarks [where img = "test_image 64 64"
      and landmarks = "[(Some (1 / 2), Some (1 / 4))]"
      and b = "decode_box (1 / 4, 1 / 4, 3 / 4, 3 / 4)"
      and img' = "fst (projr ?r)" and landmarks' = "snd (projr ?r)"]
  have "snd (projr ?r) = spec_rebase_landmarks 64 64 (8, 8, 56, 56) [(Some (1 / 2), Some (1 / 4))]"
    by (simp add: crop_bounds_sample test_image_def)
  moreover have "spec_rebase_landmarks 64 64 (8, 8, 56, 56) [(Some (1 / 2), Some (1 / 4))]
      = [(Some (1 / 2), Some (1 / 6))]"
    by (simp add: spec_rebase_landmarks_def spec_rebase_def fdiv_def)
  ultimately show ?thesis using ok by simp
qed

section \<open>The degenerate region\<close>

lemma crop_zero_extent_fails:
  assumes "crop_bounds (dim0 img) (dim1 img) b = (ymin, xmin, ymax, xmax)"
      and "ymax - ymin = 0 \<or> xmax - xmin = 0"
  shows "crop img landmarks b = Inl InvalidArgumentError"
  using assms
  by (auto simp: crop_def Let_def crop_window_def to_int32_def crop_to_bounding_box_def)

lemma widened_extent:
  fixes p q hi :: rat
  assumes "0 \<le> p" "p < q" "q \<le> hi"
  shows "q - p \<le> min (q + (q - p) / 4) hi - max (p - (q - p) / 4) 0"
proof -
  have "0 \<le> (q - p) / 4" using assms by simp
  then have "max (p - (q - p) / 4) 0 \<le> p" "q \<le> min (q + (q - p) / 4) hi"
    using assms by simp_all
  then show ?thesis by linarith
qed

lemma precondition_extents:
  assumes "crop_precondition image_h image_w (decode_box raw)"
      and "crop_bounds image_h image_w (decode_box raw) = (ymin, xmin, ymax, xmax)"
  shows "0 < ymax - ymin \<and> 0 < xmax - xmin \<and> 0 < image_h \<and> 0 < image_w"
proof -
  obtain y0 x0 y1 x1 where d: "decode_box raw = (y0, x0, y1, x1)"
    by (cases "decode_box raw") auto
  note unit = decode_box_unit [OF d]
  from assms(1) d have pos: "y0 * of_nat image_h < y1 * of_nat image_h"
      "x0 * of_nat image_w < x1 * of_nat image_w"
    by (simp_all add: crop_precondition_def)
  have h: "0 < image_h" using pos(1) by (cases image_h) simp_all
  have w: "0 < image_w" using pos(2) by (cases image_w) simp_all
  have py: "0 < y1 * of_nat image_h - y0 * of_nat image_h"
    using pos(1) by (simp only: diff_gt_0_iff_gt)
  have px: "0 < x1 * of_nat image_w - x0 * of_nat image_w"
    using pos(2) by (simp only: diff_gt_0_iff_gt)
  have "y1 * of_nat image_h - y0 * of_nat image_h \<le> ymax - ymin"
    using assms(2) unit pos(1) unfolding d crop_bounds_unfold
    by (auto intro!: widened_extent simp: scaled_le)
  with py have ey: "0 < ymax - ymin" by (rule less_le_trans)
  have "x1 * of_nat image_w - x0 * of_nat image_w \<le> xmax - xmin"
    using assms(2) unit pos(2) unfolding d crop_bounds_unfold
    by (auto intro!: widened_extent simp: scaled_le)
  with px have ex: "0 < xmax - xmin" by (rule less_le_trans)
  show ?thesis using ey ex h w by blast
qed

text \<open>
  C5. A region of zero height or zero width never yields an image: the target size handed
  to \<open>crop_to_bounding_box\<close> is then zero, which the library refuses before it slices, so
  the record fails with its argument error. And when the clipped box has strictly positive
  height and width in pixels, both extents of the region are nonzero, so every division of
  the rebasing is by a nonzero value.
\<close>

theorem crop_guarded_divisions:
  "(case crop_bounds (dim0 img) (dim1 img) b of (ymin, xmin, ymax, xmax) \<Rightarrow>
      ymax - ymin = 0 \<or> xmax - xmin = 0 \<longrightarrow> crop img landmarks b = Inl InvalidArgumentError)
   \<and> (crop_precondition image_h image_w (decode_box raw) \<longrightarrow>
        (case crop_bounds image_h image_w (decode_box raw) of (ymin, xmin, ymax, xmax) \<Rightarrow>
           ymax - ymin \<noteq> 0 \<and> xmax - xmin \<noteq> 0))"
proof -
  obtain ymin xmin ymax xmax where c: "crop_bounds (dim0 img) (dim1 img) b = (ymin, xmin, ymax, xmax)"
    by (cases "crop_bounds (dim0 img) (dim1 img) b") auto
  obtain ymin' xmin' ymax' xmax'
    where c': "crop_bounds image_h image_w (decode_box raw) = (ymin', xmin', ymax', xmax')"
    by (cases "crop_bounds image_h image_w (decode_box raw)") auto
  show ?thesis
    using crop_zero_extent_fails [OF c] precondition_extents [OF _ c']
    by (auto simp: c c')
qed

theorem crop_guarded_divisions_witness:
  "crop_bounds 4 4 (decode_box (1 / 2, 1 / 2, 1 / 2, 1 / 2)) = (2, 2, 2, 2) \<and>
   crop (test_image 4 4) [(Some (1 / 2), Some (1 / 2))] (decode_box (1 / 2, 1 / 2, 1 / 2, 1 / 2))
     = Inl InvalidArgumentError \<and>
   crop_precondition 64 64 (decode_box (1 / 4, 1 / 4, 3 / 4, 3 / 4)) \<and>
   crop_bounds 64 64 (decode_box (1 / 4, 1 / 4, 3 / 4, 3 / 4)) = (8, 8, 56, 56)"
proof -
  have b: "crop_bounds 4 4 (decode_box (1 / 2, 1 / 2, 1 / 2, 1 / 2)) = (2, 2, 2, 2)"
    by (simp add: crop_bounds_def decode_box_def clip_by_value_def Let_def)
  have p: "crop_precondition 64 64 (decode_box (1 / 4, 1 / 4, 3 / 4, 3 / 4))"
    by (simp add: crop_precondition_def decode_box_def clip_by_value_def)
  from crop_guarded_divisions [where img = "test_image 4 4"
      and b = "decode_box (1 / 2, 1 / 2, 1 / 2, 1 / 2)"
      and landmarks = "[(Some (1 / 2), Some (1 / 2))]"
      and image_h = 64 and image_w = 64 and raw = "(1 / 4, 1 / 4, 3 / 4, 3 / 4)"]
  have "crop (test_image 4 4) [(Some (1 / 2), Some (1 / 2))] (decode_box (1 / 2, 1 / 2, 1 / 2, 1 / 2))
     = Inl InvalidArgumentError"
    by (simp add: b test_image_def)
  with b p crop_bounds_sample show ?thesis by simp
qed

section \<open>The round trip\<close>

lemma unrebase_coordinate:
  assumes "d \<noteq> 0" "extent \<noteq> 0"
  shows "spec_unrebase (spec_rebase v extent origin d) extent origin d = v"
  using assms by (cases v) (simp_all add: spec_unrebase_def spec_rebase_def fdiv_def)

lemma unrebase_rebase:
  assumes "ymax - ymin \<noteq> 0" "xmax - xmin \<noteq> 0" "image_h \<noteq> 0" "image_w \<noteq> 0"
  shows "unrebase image_h image_w (ymin, xmin, ymax, xmax)
           (rebase image_h image_w (ymin, xmin, ymax, xmax) landmarks) = landmarks"
  using assms
  by (induction landmarks)
     (simp_all add: unrebase_def rebase_is_spec spec_rebase_landmarks_def unrebase_coordinate
        split: prod.splits)

text \<open>
  C8. For every image and clipped box that satisfy the precondition of the crop, mapping
  the landmarks through the rebasing of \<open>crop\<close> and then through its inverse
  \<open>(new * crop_extent + crop_origin) / image_extent\<close> gives back every original
  coordinate, exactly.
\<close>

theorem crop_round_trip:
  assumes "crop_precondition image_h image_w (decode_box raw)"
  shows "unrebase image_h image_w (crop_bounds image_h image_w (decode_box raw))
           (rebase image_h image_w (crop_bounds image_h image_w (decode_box raw)) landmarks)
         = landmarks"
proof -
  obtain ymin xmin ymax xmax
    where c: "crop_bounds image_h image_w (decode_box raw) = (ymin, xmin, ymax, xmax)"
    by (cases "crop_bounds image_h image_w (decode_box raw)") auto
  from precondition_extents [OF assms c] show ?thesis
    unfolding c by (intro unrebase_rebase) simp_all
qed

theorem crop_round_trip_witness:
  "crop_precondition 64 64 (decode_box (1 / 4, 1 / 4, 3 / 4, 3 / 4)) \<and>
   rebase 64 64 (8, 8, 56, 56) [(Some (1 / 2), Some (1 / 4)), (Some 0, Some 1)]
     = [(Some (1 / 2), Some (1 / 6)), (Some (- (1 / 6)), Some (7 / 6))] \<and>
   unrebase 64 64 (8, 8, 56, 56) [(Some (1 / 2), Some (1 / 6)), (Some (- (1 / 6)), Some (7 / 6))]
     = [(Some (1 / 2), Some (1 / 4)), (Some 0, Some 1)]"
proof -
  have p: "crop_precondition 64 64 (decode_box (1 / 4, 1 / 4, 3 / 4, 3 / 4))"
    by (simp add: crop_precondition_def decode_box_def clip_by_value_def)
  have r: "rebase 64 64 (8, 8, 56, 56) [(Some (1 / 2), Some (1 / 4)), (Some 0, Some 1)]
     = [(Some (1 / 2), Some (1 / 6)), (Some (- (1 / 6)), Some (7 / 6))]"
    by (simp add: rebase_def fdiv_def fmul_def fsub_def)
  from crop_round_trip [OF p, of "[(Some (1 / 2), Some (1 / 4)), (Some 0, Some 1)]"]
  show ?thesis using p r by (simp add: crop_bounds_sample)
qed

section \<open>The cropped window and the landmark frame\<close>

lemma to_int32_of_int: "to_int32 (of_int n) = n"
  by (simp add: to_int32_def)

lemma integral_to_int32: "integral x \<Longrightarrow> of_int (to_int32 x) = x"
  by (metis integral_def to_int32_of_int)

lemma integral_diff: "integral x \<Longrightarrow> integral y \<Longrightarrow> integral (y - x)"
  by (metis integral_def of_int_diff of_int_floor_cancel Ints_of_int)

lemma integral_window:
  assumes "integral_bounds bounds"
  shows "window_is_frame bounds"
proof -
  obtain ymin xmin ymax xmax where b: "bounds = (ymin, xmin, ymax, xmax)"
    by (cases bounds) auto
  from assms b have i: "integral ymin" "integral xmin" "integral ymax" "integral xmax"
    by (simp_all add: integral_bounds_def)
  then show ?thesis
    by (simp add: b window_is_frame_def crop_window_def integral_to_int32 integral_diff)
qed

lemma window_frame_rebase:
  assumes "window_is_frame bounds" and "crop_window bounds = (oy, ox, th, tw)"
  shows "rebase image_h image_w bounds landmarks =
         rebase image_h image_w (of_int oy, of_int ox, of_int (oy + th), of_int (ox + tw)) landmarks"
proof -
  from assms have "bounds = (of_int oy, of_int ox, of_int (oy + th), of_int (ox + tw))"
    by (cases bounds) (simp add: window_is_frame_def)
  then show ?thesis by simp
qed

lemma to_int32_positive: "0 < to_int32 x \<Longrightarrow> to_int32 x = \<lfloor>x\<rfloor>"
  by (auto simp: to_int32_def split: if_splits)

lemma crop_bounds_lower:
  assumes "crop_bounds image_h image_w b = (ymin, xmin, ymax, xmax)"
  shows "0 \<le> ymin \<and> 0 \<le> xmin"
  using assms by (cases b) (auto simp: crop_bounds_def Let_def)

lemma crop_image:
  assumes "crop img landmarks b = Inr (img', landmarks')"
      and "crop_bounds (dim0 img) (dim1 img) b = (ymin, xmin, ymax, xmax)"
  shows "dim0 img' = nat \<lfloor>ymax - ymin\<rfloor> \<and> dim1 img' = nat \<lfloor>xmax - xmin\<rfloor> \<and>
         dim2 img' = dim2 img \<and>
         elem img' = (\<lambda>i j c. elem img (nat \<lfloor>ymin\<rfloor> + i) (nat \<lfloor>xmin\<rfloor> + j) c)"
proof -
  from crop_bounds_lower [OF assms(2)] have o: "to_int32 ymin = \<lfloor>ymin\<rfloor>" "to_int32 xmin = \<lfloor>xmin\<rfloor>"
    by (simp_all add: to_int32_def)
  from assms have c: "crop_to_bounding_box img (to_int32 ymin) (to_int32 xmin)
      (to_int32 (ymax - ymin)) (to_int32 (xmax - xmin)) = Inr img'"
    by (auto simp: crop_def Let_def crop_window_def split: sum.splits)
  then have p: "0 < to_int32 (ymax - ymin)" "0 < to_int32 (xmax - xmin)"
    by (auto simp: crop_to_bounding_box_def split: if_splits)
  have t: "to_int32 (ymax - ymin) = \<lfloor>ymax - ymin\<rfloor>" "to_int32 (xmax - xmin) = \<lfloor>xmax - xmin\<rfloor>"
    using p [THEN to_int32_positive] by blast+
  from c show ?thesis
    unfolding o t by (auto simp: crop_to_bounding_box_def split: if_splits)
qed

lemma half_floor: "\<lfloor>25 / 2 :: rat\<rfloor> = 12"
  by (rule floor_unique) simp_all

lemma three_quarter_floor: "\<lfloor>375 / 4 :: rat\<rfloor> = 93"
  by (rule floor_unique) simp_all

lemma negative_ceiling: "\<lceil>- (225 / 2) :: rat\<rceil> = - 112"
  by (rule ceiling_unique) simp_all

lemma crop_bounds_hundred:
  "crop_bounds 100 100 (decode_box (1 / 4, 1 / 4, 3 / 4, 3 / 4)) = (25 / 2, 25 / 2, 175 / 2, 175 / 2)"
  by (simp add: crop_bounds_def decode_box_def clip_by_value_def Let_def)

lemma crop_window_hundred:
  "crop_window (25 / 2, 25 / 2, 175 / 2, 175 / 2) = (12, 12, 75, 75)"
  by (simp add: crop_window_def to_int32_def half_floor)

lemma crop_hundred_landmarks:
  "map_sum id snd (crop (test_image 100 100) [(Some (1 / 8), Some (1 / 8))]
      (decode_box (1 / 4, 1 / 4, 3 / 4, 3 / 4))) = Inr [(Some 0, Some 0)]"
  apply (simp add: crop_def Let_def test_image_def crop_bounds_hundred crop_window_hundred)
  apply (simp add: crop_to_bounding_box_def crop_bounds_hundred rebase_def fdiv_def fmul_def
      fsub_def)
  done

text \<open>
  C10. Where \<open>crop\<close> returns, the rows and columns of its image are those of the window
  that starts at the bounds \<open>ymin\<close>, \<open>xmin\<close> rounded down and has the sizes \<open>ymax - ymin\<close>,
  \<open>xmax - xmin\<close> rounded down, while its landmarks are
  \<open>(old * image_extent - origin) / extent\<close> with the bounds themselves. The cast hands
  over truncations towards zero: the box \<open>(3/4, 3/4, 0, 0)\<close> on a 100 by 100 image has the
  bounds 93.75 and -18.75 and is handed over as offset 93 and size -112. Whenever the four
  bounds are integers, the window is exactly the frame of the landmarks, and rebasing to
  the one is rebasing to the other. For the box \<open>(1/4, 1/4, 3/4, 3/4)\<close> on a 100 by 100
  image the bounds are 12.5 and 87.5 but the window is rows and columns 12 to 87: the
  landmark \<open>(1/8, 1/8)\<close>, at pixel 12.5, is returned as \<open>(0, 0)\<close>, while it lies at
  \<open>1/150\<close> of the window cropped.
\<close>

theorem crop_window_and_frame:
  "(crop img landmarks b = Inr (img', landmarks') \<longrightarrow>
      (case crop_bounds (dim0 img) (dim1 img) b of (ymin, xmin, ymax, xmax) \<Rightarrow>
         dim0 img' = nat \<lfloor>ymax - ymin\<rfloor> \<and> dim1 img' = nat \<lfloor>xmax - xmin\<rfloor> \<and>
         elem img' = (\<lambda>i j c. elem img (nat \<lfloor>ymin\<rfloor> + i) (nat \<lfloor>xmin\<rfloor> + j) c) \<and>
         landmarks' =
           map (\<lambda>(y, x). (spec_rebase y (of_nat (dim0 img)) ymin (ymax - ymin),
                          spec_rebase x (of_nat (dim1 img)) xmin (xmax - xmin))) landmarks))
   \<and> crop_window (crop_bounds 100 100 (decode_box (3 / 4, 3 / 4, 0, 0))) = (93, 93, - 112, - 112)
   \<and> (integral_bounds bounds \<longrightarrow>
        window_is_frame bounds \<and>
        (case crop_window bounds of (oy, ox, th, tw) \<Rightarrow>
           rebase image_h image_w bounds landmarks =
           rebase image_h image_w
             (of_int oy, of_int ox, of_int (oy + th), of_int (ox + tw)) landmarks))
   \<and> crop_bounds 100 100 (decode_box (1 / 4, 1 / 4, 3 / 4, 3 / 4))
         = (25 / 2, 25 / 2, 175 / 2, 175 / 2)
   \<and> crop_window (25 / 2, 25 / 2, 175 / 2, 175 / 2) = (12, 12, 75, 75)
   \<and> \<not> window_is_frame (25 / 2, 25 / 2, 175 / 2, 175 / 2)
   \<and> map_sum id snd (crop (test_image 100 100) [(Some (1 / 8), Some (1 / 8))]
        (decode_box (1 / 4, 1 / 4, 3 / 4, 3 / 4))) = Inr [(Some 0, Some 0)]
   \<and> spec_rebase (Some (1 / 8)) 100 12 75 = Some (1 / 150)"
proof -
  have returned: "crop img landmarks b = Inr (img', landmarks') \<longrightarrow>
      (case crop_bounds (dim0 img) (dim1 img) b of (ymin, xmin, ymax, xmax) \<Rightarrow>
         dim0 img' = nat \<lfloor>ymax - ymin\<rfloor> \<and> dim1 img' = nat \<lfloor>xmax - xmin\<rfloor> \<and>
         elem img' = (\<lambda>i j c. elem img (nat \<lfloor>ymin\<rfloor> + i) (nat \<lfloor>xmin\<rfloor> + j) c) \<and>
         landmarks' =
           map (\<lambda>(y, x). (spec_rebase y (of_nat (dim0 img)) ymin (ymax - ymin),
                          spec_rebase x (of_nat (dim1 img)) xmin (xmax - xmin))) landmarks)"
  proof
    assume c: "crop img landmarks b = Inr (img', landmarks')"
    obtain ymin xmin ymax xmax
      where bd: "crop_bounds (dim0 img) (dim1 img) b = (ymin, xmin, ymax, xmax)"
      by (cases "crop_bounds (dim0 img) (dim1 img) b") auto
    from crop_landmarks [OF c]
    have "landmarks' = spec_rebase_landmarks (dim0 img) (dim1 img) (ymin, xmin, ymax, xmax) landmarks"
      by (simp add: bd rebase_is_spec)
    with crop_image [OF c bd] show "case crop_bounds (dim0 img) (dim1 img) b of
        (ymin, xmin, ymax, xmax) \<Rightarrow>
         dim0 img' = nat \<lfloor>ymax - ymin\<rfloor> \<and> dim1 img' = nat \<lfloor>xmax - xmin\<rfloor> \<and>
         elem img' = (\<lambda>i j c. elem img (nat \<lfloor>ymin\<rfloor> + i) (nat \<lfloor>xmin\<rfloor> + j) c) \<and>
         landmarks' =
           map (\<lambda>(y, x). (spec_rebase y (of_nat (dim0 img)) ymin (ymax - ymin),
                          spec_rebase x (of_nat (dim1 img)) xmin (xmax - xmin))) landmarks"
      by (simp add: bd spec_rebase_landmarks_def)
  qed
  have inverted: "crop_bounds 100 100 (decode_box (3 / 4, 3 / 4, 0, 0))
      = (375 / 4, 375 / 4, - (75 / 4), - (75 / 4))"
    by (simp add: crop_bounds_def decode_box_def clip_by_value_def Let_def)
  have cast: "crop_window (375 / 4, 375 / 4, - (75 / 4), - (75 / 4)) = (93, 93, - 112, - 112)"
    by (simp add: crop_window_def to_int32_def three_quarter_floor negative_ceiling)
  have integers: "integral_bounds bounds \<longrightarrow>
        window_is_frame bounds \<and>
        (case crop_window bounds of (oy, ox, th, tw) \<Rightarrow>
           rebase image_h image_w bounds landmarks =
           rebase image_h image_w
             (of_int oy, of_int ox, of_int (oy + th), of_int (ox + tw)) landmarks)"
    using integral_window [of bounds] window_frame_rebase [of bounds]
    by (auto split: prod.splits)
  have differ: "\<not> window_is_frame (25 / 2, 25 / 2, 175 / 2, 175 / 2)"
    by (simp add: window_is_frame_def crop_window_hundred)
  have place: "spec_rebase (Some (1 / 8)) 100 12 75 = Some (1 / 150)"
    by (simp add: spec_rebase_def fdiv_def)
  show ?thesis
    using returned integers differ place
    by (simp only: inverted cast crop_bounds_hundred crop_window_hundred crop_hundred_landmarks)
       simp
qed

theorem crop_window_and_frame_witness:
  "integral_bounds (8, 8, 56, 56) \<and> window_is_frame (8, 8, 56, 56) \<and>
   \<not> isl (crop (test_image 64 64) [] (decode_box (1 / 4, 1 / 4, 3 / 4, 3 / 4))) \<and>
   dim0 (fst (projr (crop (test_image 64 64) [] (decode_box (1 / 4, 1 / 4, 3 / 4, 3 / 4))))) = 48 \<and>
   dim1 (fst (projr (crop (test_image 64 64) [] (decode_box (1 / 4, 1 / 4, 3 / 4, 3 / 4))))) = 48"
proof -
  let ?r = "crop (test_image 64 64) [] (decode_box (1 / 4, 1 / 4, 3 / 4, 3 / 4))"
  have i: "integral_bounds (8, 8, 56, 56)"
    by (simp add: integral_bounds_def integral_def)
  have ok: "\<not> isl ?r" by (rule crop_sample_succeeds)
  then have r: "?r = Inr (fst (projr ?r), snd (projr ?r))"
    by (cases ?r) simp_all
  from crop_window_and_frame [where bounds = "(8, 8, 56, 56)" and img = "test_image 64 64"
      and landmarks = "[]" and b = "decode_box (1 / 4, 1 / 4, 3 / 4, 3 / 4)"
      and img' = "fst (projr ?r)" and landmarks' = "snd (projr ?r)"] r i
  have "window_is_frame (8, 8, 56, 56) \<and> dim0 (fst (projr ?r)) = 48 \<and> dim1 (fst (projr ?r)) = 48"
    by (simp add: crop_bounds_sample test_image_def)
  with i ok show ?thesis by simp
qed

section \<open>The order of the transforms\<close>

lemma augmentation_fn_result:
  "(ex_image (augmentation_fn ext h w s), ex_landmarks (augmentation_fn ext h w s)) =
     (let (img1, b1, landmarks1) =
            random_rotation ext (ex_image s) (ex_box s) (ex_landmarks s) 30;
          img2 = resize_images (RESIZE_METHOD ext) img1 h w;
          img3 = random_color_manipulations ext img2 (15 / 100) (5 / 100);
          img4 = random_pixel_value_scale ext img3 (85 / 100) (115 / 100) (15 / 100);
          img5 = random_gaussian_blur ext img4 (3 / 10) 5
      in random_flip_left_right ext img5 landmarks1)"
  by (simp add: augmentation_fn_def flip_step_def blur_step_def pixel_scale_step_def
      color_step_def resize_step_def rotation_step_def Let_def split: prod.splits)

lemma parse_augmented:
  assumes "length (landmarks_feature r) = 2 * n"
  shows "parse_and_preprocess ext w h n True r =
     (let (img1, b1, landmarks1) =
            random_rotation ext (decode_image r) (parsed_box r) (decode_landmarks r) 30;
          img2 = resize_images (RESIZE_METHOD ext) img1 h w;
          img3 = random_color_manipulations ext img2 (15 / 100) (5 / 100);
          img4 = random_pixel_value_scale ext img3 (85 / 100) (115 / 100) (15 / 100);
          img5 = random_gaussian_blur ext img4 (3 / 10) 5;
          (img6, landmarks6) = random_flip_left_right ext img5 landmarks1
      in Inr (transpose_201 img6, landmarks6))"
  using assms
  by (simp add: parse_and_preprocess_def preprocess_def augmentation_fn_def flip_step_def
      blur_step_def pixel_scale_step_def color_step_def resize_step_def rotation_step_def
      Let_def split: prod.splits)

lemma flat_box_bounds:
  assumes "ymin_feature r = ymax_feature r"
  shows "\<exists>y xmin xmax. crop_bounds image_h image_w (parsed_box r) = (y, xmin, y, xmax)"
proof -
  obtain y0 x0 y1 x1 where d: "parsed_box r = (y0, x0, y1, x1)"
    by (cases "parsed_box r") auto
  with assms have e: "y1 = y0"
    by (simp add: parsed_box_def decode_box_def)
  from d have "0 \<le> y0 \<and> y0 \<le> 1"
    using decode_box_unit [of _ y0 x0 y1 x1] by (simp add: parsed_box_def)
  then have "0 \<le> y0 * of_nat image_h" "y0 * of_nat image_h \<le> of_nat image_h"
    by (simp_all add: scaled_le)
  then show ?thesis
    by (simp add: d e crop_bounds_unfold)
qed

lemma parse_plain_flat_box:
  assumes "ymin_feature r = ymax_feature r"
  shows "parse_and_preprocess ext w h n False r = Inl InvalidArgumentError"
proof -
  from flat_box_bounds [OF assms] obtain y xmin xmax
    where "crop_bounds (dim0 (decode_image r)) (dim1 (decode_image r)) (parsed_box r)
             = (y, xmin, y, xmax)"
    by blast
  then have "crop (decode_image r) (decode_landmarks r) (parsed_box r) = Inl InvalidArgumentError"
    by (rule crop_zero_extent_fails) simp
  then show ?thesis
    by (simp add: parse_and_preprocess_def preprocess_def crop_step_def Let_def)
qed

text \<open>
  C6. With augmentation enabled the transform of one record is, in this order and no
  other: the rotation of the decoded image, box and landmarks; the resize of the whole
  image the rotation returned to the target size; the color manipulation; the pixel value
  scale; the Gaussian blur; and the horizontal flip of that image and of the landmarks the
  rotation returned. This is what \<open>_augmentation_fn\<close> returns and, transposed, what the
  transform returns for every record the parser accepts. \<open>crop\<close> is not called on this
  path: the box the rotation returns is not used, and a record whose box has no height,
  which the transform without augmentation refuses at the crop, is transformed.
\<close>

theorem augmentation_order:
  "(ex_image (augmentation_fn ext h w s), ex_landmarks (augmentation_fn ext h w s)) =
     (let (img1, b1, landmarks1) =
            random_rotation ext (ex_image s) (ex_box s) (ex_landmarks s) 30;
          img2 = resize_images (RESIZE_METHOD ext) img1 h w;
          img3 = random_color_manipulations ext img2 (15 / 100) (5 / 100);
          img4 = random_pixel_value_scale ext img3 (85 / 100) (115 / 100) (15 / 100);
          img5 = random_gaussian_blur ext img4 (3 / 10) 5
      in random_flip_left_right ext img5 landmarks1) \<and>
   (length (landmarks_feature r) = 2 * n \<longrightarrow>
      parse_and_preprocess ext w h n True r =
        (let (img1, b1, landmarks1) =
               random_rotation ext (decode_image r) (parsed_box r) (decode_landmarks r) 30;
             img2 = resize_images (RESIZE_METHOD ext) img1 h w;
             img3 = random_color_manipulations ext img2 (15 / 100) (5 / 100);
             img4 = random_pixel_value_scale ext img3 (85 / 100) (115 / 100) (15 / 100);
             img5 = random_gaussian_blur ext img4 (3 / 10) 5;
             (img6, landmarks6) = random_flip_left_right ext img5 landmarks1
         in Inr (transpose_201 img6, landmarks6))) \<and>
   (ymin_feature r = ymax_feature r \<longrightarrow>
      parse_and_preprocess ext w h n False r = Inl InvalidArgumentError)"
  using parse_augmented [of r n ext w h] parse_plain_flat_box [of r ext w h n]
  by (simp only: augmentation_fn_result) simp

lemma order_sample:
  "(let (img1, b1, landmarks1) =
          random_rotation order_externals (decode_image sample_record) (parsed_box sample_record)
            (decode_landmarks sample_record) 30;
        img2 = resize_images (RESIZE_METHOD order_externals) img1 8 8;
        img3 = random_color_manipulations order_externals img2 (15 / 100) (5 / 100);
        img4 = random_pixel_value_scale order_externals img3 (85 / 100) (115 / 100) (15 / 100);
        img5 = random_gaussian_blur order_externals img4 (3 / 10) 5;
        (img6, landmarks6) = random_flip_left_right order_externals img5 landmarks1
    in (Inr (transpose_201 img6, landmarks6) :: error + tensor3 \<times> landmark list))
   = Inr (\<lparr>dim0 = 3, dim1 = 8, dim2 = 8, elem = (\<lambda>c i j. 407)\<rparr>,
          [(Some 1, Some 0), (Some 0, Some 1)])"
  by (simp add: order_externals_def decode_image_def decode_landmarks_def sample_record_def
      resize_images_def transpose_201_def clip_by_value_def fsub_def Let_def)

theorem augmentation_order_witness:
  "length (landmarks_feature sample_record) = 2 * 2 \<and>
   parse_and_preprocess order_externals 8 8 2 True sample_record
     = Inr (\<lparr>dim0 = 3, dim1 = 8, dim2 = 8, elem = (\<lambda>c i j. 407)\<rparr>,
            [(Some 1, Some 0), (Some 0, Some 1)]) \<and>
   ymin_feature degenerate_record = ymax_feature degenerate_record \<and>
   length (landmarks_feature degenerate_record) = 2 * 2 \<and>
   parse_and_preprocess order_externals 8 8 2 False degenerate_record = Inl InvalidArgumentError \<and>
   \<not> isl (parse_and_preprocess order_externals 8 8 2 True degenerate_record)"
proof -
  have l: "length (landmarks_feature sample_record) = 2 * 2"
    by (simp add: sample_record_def)
  have d: "ymin_feature degenerate_record = ymax_feature degenerate_record"
    "length (landmarks_feature degenerate_record) = 2 * 2"
    by (simp_all add: degenerate_record_def sample_record_def)
  from augmentation_order [where r = sample_record and n = 2 and ext = order_externals
      and w = 8 and h = 8] l
  have a: "parse_and_preprocess order_externals 8 8 2 True sample_record
     = Inr (\<lparr>dim0 = 3, dim1 = 8, dim2 = 8, elem = (\<lambda>c i j. 407)\<rparr>,
            [(Some 1, Some 0), (Some 0, Some 1)])"
    by (simp only: order_sample)
  from augmentation_order [where r = degenerate_record and n = 2 and ext = order_externals
      and w = 8 and h = 8] d
  have b: "parse_and_preprocess order_externals 8 8 2 False degenerate_record
             = Inl InvalidArgumentError"
    and c: "\<not> isl (parse_and_preprocess order_externals 8 8 2 True degenerate_record)"
    by (simp_all add: Let_def split: prod.splits)
  from l d a b c show ?thesis by simp
qed

section \<open>The resize step\<close>

lemma preprocess_plain_landmarks:
  "map_sum id ex_landmarks (preprocess ext w h n False r) =
   (if length (landmarks_feature r) \<noteq> 2 * n then Inl InvalidArgumentError
    else map_sum id snd (crop (decode_image r) (decode_landmarks r) (parsed_box r)))"
  by (simp add: preprocess_def Let_def crop_step_def resize_step_def split: sum.splits prod.splits)

lemma parse_and_preprocess_landmarks:
  "map_sum id snd (parse_and_preprocess ext w h n aug r) =
   map_sum id ex_landmarks (preprocess ext w h n aug r)"
  by (simp add: parse_and_preprocess_def split: sum.splits)

text \<open>
  C7. The resize step changes the image only: for every example, every target size and
  every interpolation, the landmarks (and the box) after the step are those before it.
  Hence the landmarks the transform without augmentation returns do not depend on the
  target size or on the interpolation at all.
\<close>

theorem resize_keeps_landmarks:
  "ex_landmarks (resize_step ext h w s) = ex_landmarks s \<and>
   ex_box (resize_step ext h w s) = ex_box s \<and>
   map_sum id snd (parse_and_preprocess ext w h n False r) =
   map_sum id snd (parse_and_preprocess ext' w' h' n False r)"
  by (simp add: resize_step_def parse_and_preprocess_landmarks preprocess_plain_landmarks)

section \<open>Construction\<close>

lemma count_examples_empty_file:
  "[] \<in> set filenames \<Longrightarrow> count_examples filenames k = Inl AssertionError"
  by (induction filenames arbitrary: k) (auto simp: Let_def)

text \<open>
  C9. For every list of shards in which some shard holds no record, the construction of
  the pipeline fails, so no pipeline exists to ask for a batch; no empty shard is skipped.
  The failure is that of the source's \<open>assert num_examples_in_file > 0\<close>, Python's
  \<open>AssertionError\<close>, which stands for the specification's \<open>ShardEmptyError\<close>.
\<close>

theorem empty_shard_fails_construction:
  assumes "[] \<in> set filenames"
  shows "Pipeline_init ext filenames bsize image_size nlandmarks repeat shuffle aug
           = Inl AssertionError"
  using count_examples_empty_file [OF assms, of 0]
  by (simp add: Pipeline_init_def split: prod.splits)

theorem empty_shard_fails_construction_witness:
  "[] \<in> set [[sample_record, sample_record], [], [sample_record]] \<and>
   Pipeline_init sample_externals [[sample_record, sample_record], [], [sample_record]]
     4 (8, 8) 2 False False False = Inl AssertionError"
  using empty_shard_fails_construction [of "[[sample_record, sample_record], [], [sample_record]]"
      sample_externals 4 "(8, 8)" 2 False False False]
  by simp

section \<open>Batches\<close>

lemma sample_record_bounds:
  "crop_bounds 64 64 (decode_box (1 / 32, 1 / 32, 13 / 32, 13 / 32)) = (0, 0, 32, 32)"
  by (simp add: crop_bounds_def decode_box_def clip_by_value_def Let_def)

lemma sample_record_element:
  "parse_and_preprocess sample_externals 8 8 2 False sample_record = Inr sample_element"
  apply (simp add: parse_and_preprocess_def preprocess_def sample_record_def Let_def crop_step_def
      decode_image_def parsed_box_def decode_landmarks_def)
  apply (simp add: crop_def sample_record_bounds crop_window_def to_int32_def
      crop_to_bounding_box_def)
  apply (simp add: rebase_def fdiv_def fmul_def fsub_def clip_by_value_def resize_step_def
      resize_images_def sample_externals_def transpose_201_def sample_element_def)
  done

lemma sample_pipeline:
  "Pipeline_init sample_externals sample_files 4 (8, 8) 2 False False False =
     Inr \<lparr>image_width = 8, image_height = 8, augmentation = False, batch_size = 4,
          num_landmarks = 2, num_examples = 10,
          elements = replicate 10 (Inr sample_element), repeating = False, cursor = 0\<rparr>"
  by (simp add: Pipeline_init_def sample_files_def Let_def
      sample_record_element flip: replicate_add)

text \<open>
  C3, evaluated on the code. Two shards of five records, a batch size of 4 and no repeat:
  the first three calls of \<open>get_batch\<close> return batches of 4, 4 and 2 examples, and only
  the fourth signals the end of the stream. The specification has two batches and two
  records dropped.
\<close>

theorem ten_records_three_batches:
  "map (map_sum id (\<lambda>(features, labels). (length features, length labels)))
     (get_batches 4 (projr (Pipeline_init sample_externals sample_files 4 (8, 8) 2 False False False)))
   = [Inr (4, 4), Inr (4, 4), Inr (2, 2), Inl OutOfRangeError]"
  apply (simp only: sample_pipeline sum.sel)
  apply (simp add: get_batch_def fetch_def numeral_eq_Suc)
  done


lemma length_pairs: "length (pairs xs) = length xs div 2"
  by (induction xs rule: pairs.induct) simp_all

lemma rebase_length: "length (rebase h w bounds landmarks) = length landmarks"
  by (cases bounds) (simp add: rebase_def Let_def)

lemma decode_landmarks_length:
  "length (landmarks_feature r) = 2 * n \<Longrightarrow> length (decode_landmarks r) = n"
  by (simp add: decode_landmarks_def length_pairs)

lemma decode_landmarks_unit: "unit_landmarks (decode_landmarks r)"
  by (auto simp: unit_landmarks_def unit_coordinate_def decode_landmarks_def clip_by_value_def)

lemma decode_landmarks_finite: "finite_landmarks (decode_landmarks r)"
  by (auto simp: finite_landmarks_def decode_landmarks_def)

lemma crop_shape:
  assumes "crop img landmarks b = Inr (img', landmarks')"
  shows "dim2 img' = dim2 img \<and> length landmarks' = length landmarks"
  using assms
  by (auto simp: crop_def Let_def crop_to_bounding_box_def rebase_length
      split: prod.splits if_splits)

lemma rebase_finite:
  assumes "ymax - ymin \<noteq> 0" "xmax - xmin \<noteq> 0" "finite_landmarks landmarks"
  shows "finite_landmarks (rebase image_h image_w (ymin, xmin, ymax, xmax) landmarks)"
  using assms
  by (auto simp: finite_landmarks_def rebase_def Let_def fdiv_def fmul_def fsub_def)

lemma crop_finite:
  assumes "crop img landmarks b = Inr (img', landmarks')" and "finite_landmarks landmarks"
  shows "finite_landmarks landmarks'"
proof -
  obtain ymin xmin ymax xmax
    where bd: "crop_bounds (dim0 img) (dim1 img) b = (ymin, xmin, ymax, xmax)"
    by (cases "crop_bounds (dim0 img) (dim1 img) b") auto
  have "ymax - ymin \<noteq> 0 \<and> xmax - xmin \<noteq> 0"
  proof (rule ccontr)
    assume "\<not> (ymax - ymin \<noteq> 0 \<and> xmax - xmin \<noteq> 0)"
    then have "ymax - ymin = 0 \<or> xmax - xmin = 0" by blast
    from crop_zero_extent_fails [OF bd this] assms(1) show False by simp
  qed
  with assms(2) crop_landmarks [OF assms(1)] show ?thesis
    by (simp add: bd rebase_finite)
qed

lemma plain_element:
  assumes "parse_and_preprocess ext w h n False r = Inr (img, landmarks)"
  shows "\<exists>img'. crop (decode_image r) (decode_landmarks r) (parsed_box r) = Inr (img', landmarks) \<and>
           img = transpose_201 (resize_images (RESIZE_METHOD ext) img' h w) \<and>
           length (landmarks_feature r) = 2 * n"
  using assms
  by (auto simp: parse_and_preprocess_def preprocess_def Let_def crop_step_def resize_step_def
      split: sum.splits prod.splits if_splits)

lemma plain_element_shape:
  assumes "parse_and_preprocess ext w h n False r = Inr (img, landmarks)"
  shows "dim0 img = 3 \<and> dim1 img = h \<and> dim2 img = w \<and> length landmarks = n"
proof -
  from plain_element [OF assms] obtain img'
    where c: "crop (decode_image r) (decode_landmarks r) (parsed_box r) = Inr (img', landmarks)"
      and img: "img = transpose_201 (resize_images (RESIZE_METHOD ext) img' h w)"
      and len: "length (landmarks_feature r) = 2 * n"
    by blast
  from crop_shape [OF c] len have "dim2 img' = 3" "length landmarks = n"
    by (simp_all add: decode_landmarks_length decode_image_def)
  then show ?thesis
    by (simp add: img transpose_201_def resize_images_def)
qed

lemma plain_element_landmarks:
  assumes "parse_and_preprocess ext w h n False r = Inr (img, landmarks)"
  shows "landmarks = rebase (jpeg_height r) (jpeg_width r)
           (crop_bounds (jpeg_height r) (jpeg_width r) (parsed_box r)) (decode_landmarks r) \<and>
         finite_landmarks landmarks"
proof -
  from plain_element [OF assms] obtain img'
    where c: "crop (decode_image r) (decode_landmarks r) (parsed_box r) = Inr (img', landmarks)"
    by blast
  from crop_landmarks [OF c] crop_finite [OF c decode_landmarks_finite] show ?thesis
    by (simp add: decode_image_def)
qed

lemma fetch_member: "fetch p i = Some e \<Longrightarrow> e \<in> set (elements p)"
  by (auto simp: fetch_def split: if_splits)

lemma fetch_available:
  assumes "(repeating p \<and> elements p \<noteq> []) \<or> i < length (elements p)"
  shows "fetch p i \<noteq> None"
  using assms by (auto simp: fetch_def)

lemma pull_result:
  "pull p k i acc = (Inr xs, j) \<Longrightarrow>
   \<exists>ys. xs = rev acc @ ys \<and> length ys \<le> k \<and> (\<forall>y\<in>set ys. Inr y \<in> set (elements p)) \<and>
        (((repeating p \<and> elements p \<noteq> []) \<or> i + k \<le> length (elements p)) \<longrightarrow> length ys = k)"
proof (induction k arbitrary: i acc)
  case 0
  then show ?case by simp
next
  case (Suc k)
  show ?case
  proof (cases "fetch p i")
    case None
    with fetch_available [of p i]
    have "\<not> ((repeating p \<and> elements p \<noteq> []) \<or> i + Suc k \<le> length (elements p))"
      by auto
    with Suc.prems None show ?thesis by simp
  next
    case (Some e)
    show ?thesis
    proof (cases e)
      case (Inl err)
      with Suc.prems Some show ?thesis by simp
    next
      case (Inr x)
      with Suc.prems Some have "pull p k (Suc i) (x # acc) = (Inr xs, j)" by simp
      from Suc.IH [OF this] obtain ys where ys: "xs = rev (x # acc) @ ys" "length ys \<le> k"
        "\<forall>y\<in>set ys. Inr y \<in> set (elements p)"
        "((repeating p \<and> elements p \<noteq> []) \<or> Suc i + k \<le> length (elements p)) \<longrightarrow> length ys = k"
        by blast
      from Some Inr have "Inr x \<in> set (elements p)" by (simp add: fetch_member)
      with ys show ?thesis
        by (intro exI [of _ "x # ys"]) auto
    qed
  qed
qed

lemma get_batch_result:
  assumes "get_batch q = (Inr (features, labels), q')"
  shows "\<exists>xs. xs \<noteq> [] \<and> features = map fst xs \<and> labels = map snd xs \<and>
           pull q (batch_size q) (cursor q) [] = (Inr xs, cursor q') \<and>
           q' = q\<lparr>cursor := cursor q'\<rparr>"
  using assms
  by (auto simp: get_batch_def split: if_splits prod.splits sum.splits list.splits)

lemma count_examples_total:
  "count_examples filenames k = Inr m \<Longrightarrow> m = k + length (concat filenames)"
proof (induction filenames arbitrary: k)
  case Nil
  then show ?case by simp
next
  case (Cons shard shards)
  then have "count_examples shards (k + length shard) = Inr m"
    by (auto simp: Let_def split: if_splits)
  from Cons.IH [OF this] show ?case by simp
qed

lemma Pipeline_init_fields:
  assumes "Pipeline_init ext filenames bsize (w, h) n repeat shuffle aug = Inr p"
  shows "batch_size p = bsize \<and> repeating p = repeat \<and> cursor p = 0 \<and>
         num_examples p = length (concat filenames) \<and> 0 < num_examples p \<and>
         (\<forall>e\<in>set (elements p). \<exists>r. e = parse_and_preprocess ext w h n aug r) \<and>
         (\<not> shuffle \<longrightarrow> length (elements p) = num_examples p)"
proof -
  from assms obtain m where m: "count_examples filenames 0 = Inr m"
    by (auto simp: Pipeline_init_def split: sum.splits)
  from count_examples_total [OF m] have "m = length (concat filenames)" by simp
  with assms m show ?thesis
    by (auto simp: Pipeline_init_def Let_def split: if_splits)
qed

lemma crop_to_bounding_box_unit:
  assumes "crop_to_bounding_box img oy ox th tw = Inr img'" and "unit_valued img"
  shows "unit_valued img' \<and> 0 < dim0 img' \<and> 0 < dim1 img'"
proof -
  from assms(1) have c: "0 \<le> oy" "0 \<le> ox" "0 < th" "0 < tw"
      "tw + ox \<le> int (dim1 img)" "th + oy \<le> int (dim0 img)"
    and img': "img' = \<lparr>dim0 = nat th, dim1 = nat tw, dim2 = dim2 img,
                elem = (\<lambda>i j c. elem img (nat oy + i) (nat ox + j) c)\<rparr>"
    by (auto simp: crop_to_bounding_box_def split: if_splits)
  have "nat oy + i < dim0 img" if "i < nat th" for i using that c by linarith
  moreover have "nat ox + j < dim1 img" if "j < nat tw" for j using that c by linarith
  ultimately show ?thesis using assms(2) c by (simp add: img' unit_valued_def)
qed

lemma crop_unit:
  assumes "crop img landmarks b = Inr (img', landmarks')" and "unit_valued img"
  shows "unit_valued img' \<and> 0 < dim0 img' \<and> 0 < dim1 img'"
  using assms crop_to_bounding_box_unit
  by (auto simp: crop_def Let_def split: prod.splits sum.splits)

lemma transpose_201_unit: "unit_valued t \<Longrightarrow> unit_valued (transpose_201 t)"
  by (simp add: unit_valued_def transpose_201_def)

lemma plain_element_unit:
  assumes "parse_and_preprocess ext w h n False r = Inr (img, landmarks)"
      and "range_preserving (RESIZE_METHOD ext)" and "unit_pixels r"
  shows "unit_valued img"
proof -
  from plain_element [OF assms(1)] obtain img'
    where c: "crop (decode_image r) (decode_landmarks r) (parsed_box r) = Inr (img', landmarks)"
      and img: "img = transpose_201 (resize_images (RESIZE_METHOD ext) img' h w)"
    by blast
  from crop_unit [OF c] assms(3) have "unit_valued img' \<and> 0 < dim0 img' \<and> 0 < dim1 img'"
    by (simp add: unit_pixels_def)
  with assms(2) have "unit_valued (resize_images (RESIZE_METHOD ext) img' h w)"
    unfolding range_preserving_def by blast
  then show ?thesis unfolding img by (rule transpose_201_unit)
qed

lemma augmented_element:
  assumes "parse_and_preprocess ext w h n True r = Inr (img, landmarks)"
  shows "\<exists>img1 b1 landmarks1 img6.
           random_rotation ext (decode_image r) (parsed_box r) (decode_landmarks r) 30
             = (img1, b1, landmarks1) \<and>
           random_flip_left_right ext
             (random_gaussian_blur ext
               (random_pixel_value_scale ext
                 (random_color_manipulations ext
                   (resize_images (RESIZE_METHOD ext) img1 h w) (15 / 100) (5 / 100))
                 (85 / 100) (115 / 100) (15 / 100))
               (3 / 10) 5) landmarks1 = (img6, landmarks) \<and>
           img = transpose_201 img6 \<and> length (landmarks_feature r) = 2 * n"
proof -
  from assms have len: "length (landmarks_feature r) = 2 * n"
    by (auto simp: parse_and_preprocess_def preprocess_def split: if_splits)
  from assms show ?thesis
    unfolding parse_augmented [OF len]
    by (auto simp: Let_def len split: prod.splits)
qed

lemma keeps_shape_rotation:
  assumes "keeps_shape ext" and "random_rotation ext img b landmarks 30 = (img', b', landmarks')"
  shows "same_shape img' img \<and> length landmarks' = length landmarks"
proof -
  from assms(1) have "same_shape (fst (random_rotation ext img b landmarks 30)) img \<and>
      length (snd (snd (random_rotation ext img b landmarks 30))) = length landmarks"
    unfolding keeps_shape_def by blast
  then show ?thesis by (simp only: assms(2) fst_conv snd_conv)
qed

lemma keeps_shape_flip:
  assumes "keeps_shape ext" and "random_flip_left_right ext img landmarks = (img', landmarks')"
  shows "same_shape img' img \<and> length landmarks' = length landmarks"
proof -
  from assms(1) have "same_shape (fst (random_flip_left_right ext img landmarks)) img \<and>
      length (snd (random_flip_left_right ext img landmarks)) = length landmarks"
    unfolding keeps_shape_def by blast
  then show ?thesis by (simp only: assms(2) fst_conv snd_conv)
qed

lemma keeps_shape_photometric:
  assumes "keeps_shape ext"
  shows "same_shape (random_gaussian_blur ext
           (random_pixel_value_scale ext
             (random_color_manipulations ext img (15 / 100) (5 / 100))
             (85 / 100) (115 / 100) (15 / 100))
           (3 / 10) 5) img"
proof -
  let ?c = "random_color_manipulations ext img (15 / 100) (5 / 100)"
  let ?s = "random_pixel_value_scale ext ?c (85 / 100) (115 / 100) (15 / 100)"
  from assms have "same_shape ?c img" "same_shape ?s ?c"
    "same_shape (random_gaussian_blur ext ?s (3 / 10) 5) ?s"
    unfolding keeps_shape_def by blast+
  then show ?thesis by (simp add: same_shape_def)
qed

lemma keeps_range_photometric:
  assumes "keeps_range ext" and "unit_valued img"
  shows "unit_valued (random_gaussian_blur ext
           (random_pixel_value_scale ext
             (random_color_manipulations ext img (15 / 100) (5 / 100))
             (85 / 100) (115 / 100) (15 / 100))
           (3 / 10) 5)"
proof -
  let ?c = "random_color_manipulations ext img (15 / 100) (5 / 100)"
  let ?s = "random_pixel_value_scale ext ?c (85 / 100) (115 / 100) (15 / 100)"
  from assms have c: "unit_valued ?c" unfolding keeps_range_def by blast
  with assms(1) have s: "unit_valued ?s" unfolding keeps_range_def by blast
  with assms(1) show ?thesis unfolding keeps_range_def by blast
qed

lemma augmented_element_shape:
  assumes "parse_and_preprocess ext w h n True r = Inr (img, landmarks)" and "keeps_shape ext"
  shows "dim0 img = 3 \<and> dim1 img = h \<and> dim2 img = w \<and> length landmarks = n"
proof -
  from augmented_element [OF assms(1)] obtain img1 b1 landmarks1 img6
    where rot: "random_rotation ext (decode_image r) (parsed_box r) (decode_landmarks r) 30
             = (img1, b1, landmarks1)"
      and flip: "random_flip_left_right ext
             (random_gaussian_blur ext
               (random_pixel_value_scale ext
                 (random_color_manipulations ext
                   (resize_images (RESIZE_METHOD ext) img1 h w) (15 / 100) (5 / 100))
                 (85 / 100) (115 / 100) (15 / 100))
               (3 / 10) 5) landmarks1 = (img6, landmarks)"
      and img: "img = transpose_201 img6" and len: "length (landmarks_feature r) = 2 * n"
    by blast
  from keeps_shape_rotation [OF assms(2) rot] len
  have r1: "dim2 img1 = 3" "length landmarks1 = n"
    by (simp_all add: same_shape_def decode_image_def decode_landmarks_length)
  from keeps_shape_flip [OF assms(2) flip] keeps_shape_photometric [OF assms(2)] r1
  have "dim0 img6 = h \<and> dim1 img6 = w \<and> dim2 img6 = 3 \<and> length landmarks = n"
    by (simp add: same_shape_def resize_images_def)
  then show ?thesis by (simp add: img transpose_201_def)
qed

lemma augmented_element_unit:
  assumes "parse_and_preprocess ext w h n True r = Inr (img, landmarks)"
      and "keeps_shape ext" and "keeps_range ext"
      and "range_preserving (RESIZE_METHOD ext)" and "unit_pixels r"
  shows "unit_valued img"
proof -
  from augmented_element [OF assms(1)] obtain img1 b1 landmarks1 img6
    where rot: "random_rotation ext (decode_image r) (parsed_box r) (decode_landmarks r) 30
             = (img1, b1, landmarks1)"
      and flip: "random_flip_left_right ext
             (random_gaussian_blur ext
               (random_pixel_value_scale ext
                 (random_color_manipulations ext
                   (resize_images (RESIZE_METHOD ext) img1 h w) (15 / 100) (5 / 100))
                 (85 / 100) (115 / 100) (15 / 100))
               (3 / 10) 5) landmarks1 = (img6, landmarks)"
      and img: "img = transpose_201 img6"
    by blast
  from assms(5) have px: "0 < jpeg_height r" "0 < jpeg_width r" "unit_valued (decode_image r)"
    by (simp_all add: unit_pixels_def)
  from keeps_shape_rotation [OF assms(2) rot] px
  have ne: "0 < dim0 img1" "0 < dim1 img1"
    by (simp_all add: same_shape_def decode_image_def)
  from assms(3) px(3)
  have "unit_valued (fst (random_rotation ext (decode_image r) (parsed_box r)
          (decode_landmarks r) 30))"
    unfolding keeps_range_def by blast
  then have "unit_valued img1" by (simp add: rot)
  with assms(4) ne have "unit_valued (resize_images (RESIZE_METHOD ext) img1 h w)"
    unfolding range_preserving_def by blast
  from keeps_range_photometric [OF assms(3) this] assms(3)
  have "unit_valued (fst (random_flip_left_right ext
             (random_gaussian_blur ext
               (random_pixel_value_scale ext
                 (random_color_manipulations ext
                   (resize_images (RESIZE_METHOD ext) img1 h w) (15 / 100) (5 / 100))
                 (85 / 100) (115 / 100) (15 / 100))
               (3 / 10) 5) landmarks1))"
    unfolding keeps_range_def by blast
  then have "unit_valued img6" by (simp only: flip fst_conv)
  then show ?thesis unfolding img by (rule transpose_201_unit)
qed

lemma augmented_element_landmarks:
  assumes "parse_and_preprocess ext w h n True r = Inr (img, landmarks)"
      and "keeps_landmarks ext"
  shows "unit_landmarks landmarks"
proof -
  from augmented_element [OF assms(1)] obtain img1 b1 landmarks1 img6
    where rot: "random_rotation ext (decode_image r) (parsed_box r) (decode_landmarks r) 30
             = (img1, b1, landmarks1)"
      and flip: "random_flip_left_right ext
             (random_gaussian_blur ext
               (random_pixel_value_scale ext
                 (random_color_manipulations ext
                   (resize_images (RESIZE_METHOD ext) img1 h w) (15 / 100) (5 / 100))
                 (85 / 100) (115 / 100) (15 / 100))
               (3 / 10) 5) landmarks1 = (img6, landmarks)"
    by blast
  from assms(2) decode_landmarks_unit [of r]
  have "unit_landmarks (snd (snd (random_rotation ext (decode_image r) (parsed_box r)
          (decode_landmarks r) 30)))"
    unfolding keeps_landmarks_def by blast
  then have "unit_landmarks landmarks1" by (simp add: rot)
  with assms(2)
  have "unit_landmarks (snd (random_flip_left_right ext
             (random_gaussian_blur ext
               (random_pixel_value_scale ext
                 (random_color_manipulations ext
                   (resize_images (RESIZE_METHOD ext) img1 h w) (15 / 100) (5 / 100))
                 (85 / 100) (115 / 100) (15 / 100))
               (3 / 10) 5) landmarks1))"
    unfolding keeps_landmarks_def by blast
  then show ?thesis by (simp only: flip snd_conv)
qed

lemma Pipeline_init_provenance:
  assumes "Pipeline_init ext filenames bsize (w, h) n repeat shuffle aug = Inr p"
      and "shuffle \<longrightarrow> delivers_input_records ext"
      and "e \<in> set (elements p)"
  shows "\<exists>r\<in>set (concat filenames). e = parse_and_preprocess ext w h n aug r"
proof (cases shuffle)
  case False
  with assms(1) have "elements p = map (parse_and_preprocess ext w h n aug) (concat filenames)"
    by (auto simp: Pipeline_init_def Let_def split: sum.splits if_splits)
  with assms(3) show ?thesis by auto
next
  case True
  with assms(1) have el: "elements p = map (parse_and_preprocess ext w h n aug)
      (shuffle_records ext (concat (shuffle_files ext filenames)))"
    by (auto simp: Pipeline_init_def Let_def split: sum.splits if_splits)
  from True assms(2)
  have "set (shuffle_records ext (concat (shuffle_files ext filenames))) \<subseteq> set (concat filenames)"
    unfolding delivers_input_records_def by blast
  with el assms(3) show ?thesis by auto
qed

text \<open>
  C4 (as the code has it). For every pipeline constructed and every batch \<open>get_batch\<close>
  returns, at whatever position of the stream:
  \<^item> the batch has as many images as landmark sets, and exactly \<open>batch_size\<close> of them when
    the stream repeats or still has \<open>batch_size\<close> elements to give;
  \<^item> every image has shape \<open>[3, image_height, image_width]\<close> and every landmark set has
    \<open>num_landmarks\<close> rows (with augmentation: when the augmentations keep the shape of the
    image and the number of landmarks);
  \<^item> the values of every image are in \<open>[0, 1]\<close>, when the pictures of the records are, the
    interpolation of the resize and, with augmentation, the augmentations keep values
    there, and the shuffles deliver records of their input;
  \<^item> with augmentation, every landmark is in \<open>[0, 1]\<close> when the rotation and the flip keep
    landmarks there;
  \<^item> without augmentation, every landmark set is finite and is the rebasing by \<open>crop\<close> of
    the clipped landmarks of a record (a record of the shards, when the shuffles deliver
    records of their input); it is not clipped afterwards.
  \<open>get_batch\<close> changes nothing of the pipeline but the position.
\<close>

theorem batch_shapes:
  assumes init: "Pipeline_init ext filenames bsize (w, h) n repeat shuffle aug = Inr p"
      and batch: "get_batch (p\<lparr>cursor := k\<rparr>) = (Inr (features, labels), p')"
  shows "length features = length labels \<and>
         (repeat \<or> k + bsize \<le> length (elements p) \<longrightarrow> length features = bsize) \<and>
         ((aug \<longrightarrow> keeps_shape ext) \<longrightarrow>
            (\<forall>img\<in>set features. dim0 img = 3 \<and> dim1 img = h \<and> dim2 img = w) \<and>
            (\<forall>landmarks\<in>set labels. length landmarks = n)) \<and>
         ((shuffle \<longrightarrow> delivers_input_records ext) \<and>
          (aug \<longrightarrow> keeps_shape ext \<and> keeps_range ext) \<and>
          range_preserving (RESIZE_METHOD ext) \<and>
          (\<forall>r\<in>set (concat filenames). unit_pixels r) \<longrightarrow>
            (\<forall>img\<in>set features. unit_valued img)) \<and>
         (aug \<and> keeps_landmarks ext \<longrightarrow> (\<forall>landmarks\<in>set labels. unit_landmarks landmarks)) \<and>
         (\<not> aug \<longrightarrow>
            (\<forall>landmarks\<in>set labels. finite_landmarks landmarks \<and>
               (\<exists>r. ((shuffle \<longrightarrow> delivers_input_records ext) \<longrightarrow> r \<in> set (concat filenames)) \<and>
                    landmarks = rebase (jpeg_height r) (jpeg_width r)
                      (crop_bounds (jpeg_height r) (jpeg_width r) (parsed_box r))
                      (decode_landmarks r)))) \<and>
         (\<not> shuffle \<longrightarrow> length (elements p) = num_examples p) \<and>
         p' = p\<lparr>cursor := cursor p'\<rparr>"
proof -
  note f = Pipeline_init_fields [OF init]
  from get_batch_result [OF batch] obtain xs where xs: "xs \<noteq> []"
    "features = map fst xs" "labels = map snd xs"
    "pull (p\<lparr>cursor := k\<rparr>) bsize k [] = (Inr xs, cursor p')"
    "p' = p\<lparr>cursor := cursor p'\<rparr>"
    using f by auto
  from pull_result [OF xs(4)] have mem: "\<forall>y\<in>set xs. Inr y \<in> set (elements p)"
    and full: "((repeat \<and> elements p \<noteq> []) \<or> k + bsize \<le> length (elements p)) \<longrightarrow> length xs = bsize"
    using f by auto
  from xs(1) mem have ne: "elements p \<noteq> []" by (cases xs) auto
  have some: "\<exists>r. parse_and_preprocess ext w h n aug r = Inr (fst y, snd y)"
    if "y \<in> set xs" for y
  proof -
    from that mem have "Inr y \<in> set (elements p)" by blast
    with f show ?thesis by (metis prod.collapse)
  qed
  have given: "\<exists>r\<in>set (concat filenames). parse_and_preprocess ext w h n aug r = Inr (fst y, snd y)"
    if "y \<in> set xs" and "shuffle \<longrightarrow> delivers_input_records ext" for y
  proof -
    from that(1) mem have "Inr y \<in> set (elements p)" by blast
    from Pipeline_init_provenance [OF init that(2) this] show ?thesis
      by (metis prod.collapse)
  qed
  have shape: "dim0 (fst y) = 3 \<and> dim1 (fst y) = h \<and> dim2 (fst y) = w \<and> length (snd y) = n"
    if "y \<in> set xs" and "aug \<longrightarrow> keeps_shape ext" for y
  proof -
    from some [OF that(1)] obtain r
      where r: "parse_and_preprocess ext w h n aug r = Inr (fst y, snd y)" by blast
    show ?thesis
    proof (cases aug)
      case True
      with r have "parse_and_preprocess ext w h n True r = Inr (fst y, snd y)" by simp
      moreover from True that(2) have "keeps_shape ext" by simp
      ultimately show ?thesis by (rule augmented_element_shape)
    next
      case False
      with r have "parse_and_preprocess ext w h n False r = Inr (fst y, snd y)" by simp
      then show ?thesis by (rule plain_element_shape)
    qed
  qed
  have unit: "unit_valued (fst y)"
    if "y \<in> set xs" and "shuffle \<longrightarrow> delivers_input_records ext"
      and "aug \<longrightarrow> keeps_shape ext \<and> keeps_range ext"
      and "range_preserving (RESIZE_METHOD ext)"
      and "\<forall>r\<in>set (concat filenames). unit_pixels r" for y
  proof -
    from given [OF that(1,2)] obtain r where r: "r \<in> set (concat filenames)"
      "parse_and_preprocess ext w h n aug r = Inr (fst y, snd y)" by blast
    with that(5) have px: "unit_pixels r" by blast
    show ?thesis
    proof (cases aug)
      case True
      with r(2) have e: "parse_and_preprocess ext w h n True r = Inr (fst y, snd y)" by simp
      from True that(3) have "keeps_shape ext" "keeps_range ext" by simp_all
      from augmented_element_unit [OF e this that(4) px] show ?thesis .
    next
      case False
      with r(2) have e: "parse_and_preprocess ext w h n False r = Inr (fst y, snd y)" by simp
      from plain_element_unit [OF e that(4) px] show ?thesis .
    qed
  qed
  have aug_landmarks: "unit_landmarks (snd y)"
    if "y \<in> set xs" and "aug" and "keeps_landmarks ext" for y
  proof -
    from some [OF that(1)] that(2) obtain r
      where "parse_and_preprocess ext w h n True r = Inr (fst y, snd y)" by auto
    then show ?thesis using that(3) by (rule augmented_element_landmarks)
  qed
  have plain_landmarks: "finite_landmarks (snd y) \<and>
      (\<exists>r. ((shuffle \<longrightarrow> delivers_input_records ext) \<longrightarrow> r \<in> set (concat filenames)) \<and>
           snd y = rebase (jpeg_height r) (jpeg_width r)
             (crop_bounds (jpeg_height r) (jpeg_width r) (parsed_box r)) (decode_landmarks r))"
    if "y \<in> set xs" and "\<not> aug" for y
  proof (cases "shuffle \<longrightarrow> delivers_input_records ext")
    case True
    from given [OF that(1) True] that(2) obtain r where r: "r \<in> set (concat filenames)"
      "parse_and_preprocess ext w h n False r = Inr (fst y, snd y)" by auto
    from plain_element_landmarks [OF r(2)] r(1) show ?thesis by blast
  next
    case False
    from some [OF that(1)] that(2) obtain r
      where r: "parse_and_preprocess ext w h n False r = Inr (fst y, snd y)" by auto
    from plain_element_landmarks [OF r] False show ?thesis by blast
  qed
  have 1: "length features = length labels" using xs(2,3) by simp
  have 2: "repeat \<or> k + bsize \<le> length (elements p) \<longrightarrow> length features = bsize"
    using xs(2) full ne by auto
  have 3: "(aug \<longrightarrow> keeps_shape ext) \<longrightarrow>
            (\<forall>img\<in>set features. dim0 img = 3 \<and> dim1 img = h \<and> dim2 img = w) \<and>
            (\<forall>landmarks\<in>set labels. length landmarks = n)"
    using xs(2,3) shape by auto
  have 4: "(shuffle \<longrightarrow> delivers_input_records ext) \<and>
          (aug \<longrightarrow> keeps_shape ext \<and> keeps_range ext) \<and>
          range_preserving (RESIZE_METHOD ext) \<and>
          (\<forall>r\<in>set (concat filenames). unit_pixels r) \<longrightarrow>
            (\<forall>img\<in>set features. unit_valued img)"
    using xs(2) unit by auto
  have 5: "aug \<and> keeps_landmarks ext \<longrightarrow> (\<forall>landmarks\<in>set labels. unit_landmarks landmarks)"
    using xs(3) aug_landmarks by auto
  have 6: "\<not> aug \<longrightarrow>
            (\<forall>landmarks\<in>set labels. finite_landmarks landmarks \<and>
               (\<exists>r. ((shuffle \<longrightarrow> delivers_input_records ext) \<longrightarrow> r \<in> set (concat filenames)) \<and>
                    landmarks = rebase (jpeg_height r) (jpeg_width r)
                      (crop_bounds (jpeg_height r) (jpeg_width r) (parsed_box r))
                      (decode_landmarks r)))"
    using xs(3) plain_landmarks by auto
  have 7: "\<not> shuffle \<longrightarrow> length (elements p) = num_examples p" using f by blast
  from 1 2 3 4 5 6 7 xs(5) show ?thesis by blast
qed

lemma sample_first_batch:
  "get_batch (projr (Pipeline_init sample_externals sample_files 4 (8, 8) 2 False False False))
   = (Inr (replicate 4 (fst sample_element), replicate 4 (snd sample_element)),
      (projr (Pipeline_init sample_externals sample_files 4 (8, 8) 2 False False False))
        \<lparr>cursor := 4\<rparr>)"
  apply (simp only: sample_pipeline sum.sel)
  apply (simp add: get_batch_def fetch_def numeral_eq_Suc)
  done


lemma sample_range_preserving: "range_preserving (RESIZE_METHOD sample_externals)"
  by (auto simp: range_preserving_def unit_valued_def resize_images_def sample_externals_def)

lemma sample_unit_pixels: "\<forall>r\<in>set (concat sample_files). unit_pixels r"
  by (simp add: sample_files_def unit_pixels_def unit_valued_def sample_record_def
      decode_image_def)

lemma sample_keeps:
  "keeps_shape sample_externals \<and> keeps_range sample_externals \<and>
   keeps_landmarks sample_externals \<and> delivers_input_records sample_externals"
  by (simp add: keeps_shape_def keeps_range_def keeps_landmarks_def delivers_input_records_def
      sample_externals_def same_shape_def)

lemma sample_record_augmented:
  "parse_and_preprocess sample_externals 8 8 2 True sample_record
     = Inr (fst sample_element, [(Some 1, Some 1), (Some 0, Some 0)])"
proof -
  have "length (landmarks_feature sample_record) = 2 * 2"
    by (simp add: sample_record_def)
  from parse_augmented [OF this] show ?thesis
    by (simp add: sample_externals_def decode_image_def decode_landmarks_def sample_record_def
        resize_images_def transpose_201_def clip_by_value_def sample_element_def Let_def)
qed

lemma sample_augmented_pipeline:
  "Pipeline_init sample_externals sample_files 4 (8, 8) 2 False True True =
     Inr \<lparr>image_width = 8, image_height = 8, augmentation = True, batch_size = 4,
          num_landmarks = 2, num_examples = 10,
          elements = replicate 10
            (Inr (fst sample_element, [(Some 1, Some 1), (Some 0, Some 0)])),
          repeating = False, cursor = 0\<rparr>"
  by (simp add: Pipeline_init_def sample_files_def Let_def sample_externals_def
      sample_record_augmented [unfolded sample_externals_def] flip: replicate_add)

lemma sample_augmented_first_batch:
  "get_batch (projr (Pipeline_init sample_externals sample_files 4 (8, 8) 2 False True True))
   = (Inr (replicate 4 (fst sample_element),
           replicate 4 [(Some 1, Some 1), (Some 0, Some 0)]),
      (projr (Pipeline_init sample_externals sample_files 4 (8, 8) 2 False True True))
        \<lparr>cursor := 4\<rparr>)"
  apply (simp only: sample_augmented_pipeline sum.sel)
  apply (simp add: get_batch_def fetch_def numeral_eq_Suc)
  done

theorem batch_shapes_witness:
  "Pipeline_init sample_externals sample_files 4 (8, 8) 2 False False False
     = Inr (projr (Pipeline_init sample_externals sample_files 4 (8, 8) 2 False False False)) \<and>
   fst (get_batch (projr (Pipeline_init sample_externals sample_files 4 (8, 8) 2 False False False)))
     = Inr (replicate 4 (fst sample_element), replicate 4 (snd sample_element)) \<and>
   dim0 (fst sample_element) = 3 \<and> dim1 (fst sample_element) = 8 \<and>
   dim2 (fst sample_element) = 8 \<and> length (snd sample_element) = 2 \<and>
   0 \<le> elem (fst sample_element) 0 0 0 \<and> elem (fst sample_element) 0 0 0 \<le> 1 \<and>
   0 + 4 \<le> length (elements
     (projr (Pipeline_init sample_externals sample_files 4 (8, 8) 2 False False False))) \<and>
   Pipeline_init sample_externals sample_files 4 (8, 8) 2 False True True
     = Inr (projr (Pipeline_init sample_externals sample_files 4 (8, 8) 2 False True True)) \<and>
   fst (get_batch (projr (Pipeline_init sample_externals sample_files 4 (8, 8) 2 False True True)))
     = Inr (replicate 4 (fst sample_element),
            replicate 4 [(Some 1, Some 1), (Some 0, Some 0)])"
proof -
  let ?p = "projr (Pipeline_init sample_externals sample_files 4 (8, 8) 2 False False False)"
  let ?q = "projr (Pipeline_init sample_externals sample_files 4 (8, 8) 2 False True True)"
  have init: "Pipeline_init sample_externals sample_files 4 (8, 8) 2 False False False = Inr ?p"
    by (simp add: sample_pipeline)
  have c: "?p\<lparr>cursor := 0\<rparr> = ?p" by (simp add: sample_pipeline)
  have batch: "get_batch (?p\<lparr>cursor := 0\<rparr>)
      = (Inr (replicate 4 (fst sample_element), replicate 4 (snd sample_element)),
         ?p\<lparr>cursor := 4\<rparr>)"
    unfolding c by (rule sample_first_batch)
  have len: "0 + 4 \<le> length (elements ?p)" by (simp add: sample_pipeline)
  from batch_shapes [OF init batch] sample_range_preserving sample_unit_pixels
  have s: "dim0 (fst sample_element) = 3 \<and> dim1 (fst sample_element) = 8 \<and>
        dim2 (fst sample_element) = 8 \<and> length (snd sample_element) = 2 \<and>
        unit_valued (fst sample_element) \<and> finite_landmarks (snd sample_element)"
    by simp
  then have v: "0 \<le> elem (fst sample_element) 0 0 0 \<and> elem (fst sample_element) 0 0 0 \<le> 1"
    unfolding unit_valued_def by simp
  have init': "Pipeline_init sample_externals sample_files 4 (8, 8) 2 False True True = Inr ?q"
    by (simp only: sample_augmented_pipeline sum.sel)
  have c': "?q\<lparr>cursor := 0\<rparr> = ?q" by (simp only: sample_augmented_pipeline sum.sel) simp
  have batch': "get_batch (?q\<lparr>cursor := 0\<rparr>)
      = (Inr (replicate 4 (fst sample_element),
              replicate 4 [(Some 1, Some 1), (Some 0, Some 0)]),
         ?q\<lparr>cursor := 4\<rparr>)"
    unfolding c' by (rule sample_augmented_first_batch)
  from batch_shapes [OF init' batch'] sample_keeps sample_range_preserving sample_unit_pixels
  have s': "unit_valued (fst sample_element) \<and>
            unit_landmarks [(Some 1, Some 1), (Some 0, Some 0)]"
    by simp
  from s v s' init len init' show ?thesis
    by (simp only: sample_first_batch sample_augmented_first_batch fst_conv)
qed

text \<open>
  C4 as the specification states it, with landmark values in \<open>[0, 1]\<close>, fails: \<open>crop\<close>
  rebases the landmarks to the cropped region and does not clip them afterwards. The
  sample record's landmark \<open>(1, 1)\<close> lies outside its region of rows and columns 0 to 32
  and comes out of the first batch as \<open>(2, 2)\<close>.
\<close>

theorem batch_landmarks_counterexample:
  "map_sum id snd
     (fst (get_batch (projr (Pipeline_init sample_externals sample_files 4 (8, 8) 2 False False False))))
   = Inr [[(Some 2, Some 2), (Some 0, Some 0)], [(Some 2, Some 2), (Some 0, Some 0)],
          [(Some 2, Some 2), (Some 0, Some 0)], [(Some 2, Some 2), (Some 0, Some 0)]] \<and>
   \<not> (2 :: rat) \<le> 1"
  apply (simp only: sample_first_batch fst_conv)
  apply (simp add: sample_element_def numeral_eq_Suc)
  done

end
